theory Spec2Isabelle
  imports Complex_Main
begin

section \<open>Conventions\<close>

text \<open>
  The program is one Python module, \<^verbatim>\<open>crypto_watch_mac_popup.py\<close>. Python floats are
  modelled as the real numbers (no rounding, no NaN, no infinities), Python integers as
  \<open>int\<close>, strings as \<open>string\<close>, \<^verbatim>\<open>None\<close>-able values as \<open>option\<close>, dictionaries as maps
  and raised exceptions as the left summand of a sum type. Module-level globals are
  fields of explicit state records that every function takes and returns. Answers of the
  outside world (the clock, the exchange, the indicator pipeline) are arguments.
\<close>

datatype py_error = KeyError | IndexError | ZeroDivisionError | InvalidOperation

subsection \<open>\<^verbatim>\<open>str.upper()\<close> on ASCII\<close>

text \<open>
  Lower-case ASCII letters (codes 97 to 122) lose bit 5; every other byte is kept.
\<close>

definition upper_char :: "char \<Rightarrow> char" where
  "upper_char c =
     (if (97::nat) \<le> of_char c \<and> of_char c \<le> (122::nat)
      then (case c of Char b0 b1 b2 b3 b4 b5 b6 b7 \<Rightarrow> Char b0 b1 b2 b3 b4 False b6 b7)
      else c)"

definition upper :: "string \<Rightarrow> string" where
  "upper s = map upper_char s"

subsection \<open>Configuration constants\<close>

text \<open>
  The module-level settings read by the functions below. \<open>default_config\<close> holds the
  values written in the source (environment-dependent ones at their defaults).
\<close>

record config =
  POSITION_SIZING :: string
  ALLOC_PCT :: real
  RISK_PER_TRADE_PCT :: real
  LEVERAGE :: real
  TAKER_FEE_PCT :: real
  AI_ENABLE :: bool
  AI_MIN_SEEN_FOR_ACTION :: int
  LOG_TRADES_ON :: bool
  LOSS_STREAK_LIMIT :: int
  LOSS_SUSPEND_SECONDS :: real

definition default_config :: config where
  "default_config =
     \<lparr> POSITION_SIZING = ''RISK'', ALLOC_PCT = 15, RISK_PER_TRADE_PCT = 2, LEVERAGE = 10,
       TAKER_FEE_PCT = 4 / 100, AI_ENABLE = False, AI_MIN_SEEN_FOR_ACTION = 80,
       LOG_TRADES_ON = True, LOSS_STREAK_LIMIT = 3, LOSS_SUSPEND_SECONDS = 4 * 3600 \<rparr>"

section \<open>Accounts\<close>

text \<open>
  One row of \<^verbatim>\<open>Account.trades\<close>, with the keys \<^verbatim>\<open>close_position_one\<close> writes.
\<close>

datatype uid =
    Tagged string
  | Derived string string real real
  | Retimed string string real real int

text \<open>
  A position id is a Python string. \<open>Tagged u\<close> is a stored \<^verbatim>\<open>pos_uid\<close> entry,
  \<open>Derived which symbol entry qty\<close> stands for the f-string
  \<^verbatim>\<open>f"{which}:{symbol}:{entry}:{qty}"\<close> and \<open>Retimed which symbol entry qty ms\<close> for
  \<^verbatim>\<open>f"{which}:{symbol}:{entry}:{qty}:{utc_ms()}"\<close>; the formatting of the numbers
  is not modelled, so ids built in different ways are taken to be different strings.
\<close>

record trade =
  t_ts :: string
  t_symbol :: string
  t_side :: string
  t_entry :: real
  t_exit :: real
  t_qty :: real
  t_pnl_cash :: real
  t_net_pct :: real
  t_fee_usdt :: real
  t_risk_R :: real
  t_pos_uid :: uid
  t_reason :: string

record account =
  balance :: real
  daily_start_equity :: "real option"
  daily_pnl :: real
  total_pnl :: real
  trades :: "trade list"
  available :: "real option"

text \<open>\<^verbatim>\<open>Account.__init__\<close>.\<close>

definition new_account :: account where
  "new_account =
     \<lparr> balance = 10000, daily_start_equity = None, daily_pnl = 0, total_pnl = 0,
       trades = [], available = None \<rparr>"

section \<open>Sizing engine\<close>

text \<open>
  Rounding of a real to the nearest integer, ties to the even one: the rounding mode of
  the Decimal context and of Python's \<^verbatim>\<open>round\<close>.
\<close>

definition round_half_even :: "real \<Rightarrow> int" where
  "round_half_even x =
     (let f = \<lfloor>x\<rfloor>; r = x - of_int f
      in if r < 1 / 2 then f else if 1 / 2 < r then f + 1 else if even f then f else f + 1)"

text \<open>
  The default Decimal context keeps 28 significant digits: the result of a division or
  multiplication is rounded, half to even, at the 28th digit counted from its leading
  one. \<open>sig_exponent x\<close> is the power of ten of the leading digit of \<open>x\<close>.
\<close>

definition sig_exponent :: "real \<Rightarrow> int" where
  "sig_exponent x = \<lfloor>log 10 \<bar>x\<bar>\<rfloor>"

definition ctx_round :: "real \<Rightarrow> real" where
  "ctx_round x =
     (if x = 0 then 0
      else let e = sig_exponent x - 27
           in of_int (round_half_even (x / 10 powi e)) * 10 powi e)"

text \<open>
  \<^verbatim>\<open>_floor_to_step\<close>: both arguments go through \<^verbatim>\<open>Decimal(str(x))\<close>, which is exact. The
  quotient is rounded by the context and then quantized to an integer with
  \<^verbatim>\<open>ROUND_DOWN\<close>, which truncates toward zero and raises \<^verbatim>\<open>InvalidOperation\<close> when that
  integer needs more than 28 digits; the product with the step is rounded by the
  context again. A zero step makes the division raise: \<^verbatim>\<open>DivisionByZero\<close>, a
  \<^verbatim>\<open>ZeroDivisionError\<close>, and for zero by zero \<^verbatim>\<open>InvalidOperation\<close>. The last
  conversion \<^verbatim>\<open>float(q)\<close> is the identity here, floats being reals.
\<close>

definition round_down :: "real \<Rightarrow> int" where
  "round_down x = (if 0 \<le> x then \<lfloor>x\<rfloor> else \<lceil>x\<rceil>)"

definition floor_to_step :: "real \<Rightarrow> real \<Rightarrow> py_error + real" where
  "floor_to_step v s =
     (if s = 0 then (if v = 0 then Inl InvalidOperation else Inl ZeroDivisionError)
      else
        let n = round_down (ctx_round (v / s))
        in if 10 ^ 28 \<le> \<bar>n\<bar> then Inl InvalidOperation
           else Inr (ctx_round (of_int n * s)))"

text \<open>Python's \<^verbatim>\<open>/\<close> on floats.\<close>

definition py_div :: "real \<Rightarrow> real \<Rightarrow> py_error + real" where
  "py_div a b = (if b = 0 then Inl ZeroDivisionError else Inr (a / b))"

text \<open>\<^verbatim>\<open>float(x or 0.0)\<close>: \<^verbatim>\<open>None\<close> and \<open>0\<close> both give \<open>0.0\<close>.\<close>

definition float_or0 :: "real option \<Rightarrow> real" where
  "float_or0 x = (case x of None \<Rightarrow> 0 | Some v \<Rightarrow> v)"

text \<open>\<^verbatim>\<open>get_account\<close>, on the two global accounts.\<close>

definition get_account :: "account \<Rightarrow> account \<Rightarrow> string \<Rightarrow> account" where
  "get_account live sim which = (if upper which = ''LIVE'' then live else sim)"

text \<open>The locals of \<^verbatim>\<open>compute_qty\<close>, in the order the source computes them.\<close>

definition avail_margin :: "account \<Rightarrow> account \<Rightarrow> string \<Rightarrow> real" where
  "avail_margin live sim which =
     (case available live of
        Some a \<Rightarrow> (if upper which = ''LIVE'' then a else balance (get_account live sim which))
      | None \<Rightarrow> balance (get_account live sim which))"

definition max_notional_by_margin :: "config \<Rightarrow> account \<Rightarrow> account \<Rightarrow> string \<Rightarrow> real" where
  "max_notional_by_margin cfg live sim which =
     max 0 (avail_margin live sim which) * max (LEVERAGE cfg) 0 * (95 / 100)"

definition risk_cap :: "config \<Rightarrow> account \<Rightarrow> real option \<Rightarrow> real" where
  "risk_cap cfg acc risk_pct_override =
     (let risk_pct = (case risk_pct_override of None \<Rightarrow> RISK_PER_TRADE_PCT cfg | Some r \<Rightarrow> r)
      in balance acc * max risk_pct 0 / 100)"

definition notional_risk :: "real \<Rightarrow> real \<Rightarrow> real \<Rightarrow> py_error + real" where
  "notional_risk cap entry d = py_div (cap * entry) d"

definition compute_qty ::
  "config \<Rightarrow> account \<Rightarrow> account \<Rightarrow> real option \<Rightarrow> real option \<Rightarrow> string \<Rightarrow> real option
     \<Rightarrow> py_error + real" where
  "compute_qty cfg live sim entry0 sl0 which risk_pct_override =
     (let acc = get_account live sim which;
          entry = float_or0 entry0;
          sl = float_or0 sl0
      in if entry \<le> 0 then Inr 0
         else
           let cap_margin = max_notional_by_margin cfg live sim which
           in if upper (POSITION_SIZING cfg) = ''ALLOC'' then
                (let alloc_margin = balance acc * max (ALLOC_PCT cfg) 0 / 100;
                     target_notional = alloc_margin * max (LEVERAGE cfg) 0;
                     notional = min target_notional cap_margin
                 in case py_div notional entry of
                      Inl e \<Rightarrow> Inl e
                    | Inr q \<Rightarrow> Inr (max q 0))
              else
                (let d = \<bar>entry - sl\<bar>
                 in if d \<le> 0 then Inr 0
                    else
                      case notional_risk (risk_cap cfg acc risk_pct_override) entry d of
                        Inl e \<Rightarrow> Inl e
                      | Inr nr \<Rightarrow>
                          (case py_div (min nr cap_margin) entry of
                             Inl e \<Rightarrow> Inl e
                           | Inr q \<Rightarrow> Inr (max q 0))))"

section \<open>Dynamic per-trade risk\<close>

text \<open>
  \<^verbatim>\<open>OnlineLogit\<close>: the weight list (bias first), learning rate, L2 penalty and the
  count of gradient steps.
\<close>

record online_logit =
  m_w :: "real list"
  m_lr :: real
  m_l2 :: real
  m_n_seen :: int

text \<open>
  \<^verbatim>\<open>MLManager\<close>. \<open>recent\<close> is a \<^verbatim>\<open>deque(maxlen=200)\<close> of (probability, label) pairs;
  \<open>open_feats\<close> and \<open>open_probs\<close> are keyed by (account, symbol); \<open>samples_csv\<close> holds the
  rows appended to \<^verbatim>\<open>ml_samples.csv\<close> (account, symbol, features, label, probability,
  R-like value).
\<close>

record ml_manager =
  threshold :: real
  model :: online_logit
  recent :: "(real \<times> int) list"
  open_feats :: "string \<times> string \<rightharpoonup> real list"
  open_probs :: "string \<times> string \<rightharpoonup> real"
  pos_seen :: int
  neg_seen :: int
  train_sources :: "string set"
  train_after_seen :: int
  samples_csv :: "(string \<times> string \<times> real list \<times> int \<times> real option \<times> real) list"

text \<open>
  The part of \<^verbatim>\<open>place_order_one\<close> that turns the model probability into the risk
  percentage handed to \<^verbatim>\<open>compute_qty\<close>. \<open>None\<close> is the early return
  \<^verbatim>\<open>filtered_by_p\<close>. The pre-trade gate, which runs between the two halves and may
  reject the order for its own reasons, is not part of this function.
\<close>

definition use_ai_decision :: "config \<Rightarrow> ml_manager \<Rightarrow> bool" where
  "use_ai_decision cfg ml =
     (AI_ENABLE cfg \<and> 30 \<le> m_n_seen (model ml)
      \<and> AI_MIN_SEEN_FOR_ACTION cfg \<le> pos_seen ml + neg_seen ml)"

definition gain_of :: "real \<Rightarrow> real \<Rightarrow> real" where
  "gain_of p th = (p - th) / max (1 / 10 ^ 9) (1 - th)"

definition per_trade_risk :: "config \<Rightarrow> ml_manager \<Rightarrow> real option \<Rightarrow> real option" where
  "per_trade_risk cfg ml ml_p0 =
     (let use = use_ai_decision cfg ml;
          ml_p = (if \<not> use then None else ml_p0)
      in case ml_p of
           None \<Rightarrow> Some (RISK_PER_TRADE_PCT cfg)
         | Some p \<Rightarrow>
             if use then
               (let th = threshold ml
                in if p \<le> th then None
                   else Some (RISK_PER_TRADE_PCT cfg * (1 + min 1 (3 / 2 * gain_of p th))))
             else Some (RISK_PER_TRADE_PCT cfg))"

section \<open>Online admission model\<close>

definition sigmoid :: "real \<Rightarrow> real" where
  "sigmoid z = (if 0 \<le> z then 1 / (1 + exp (- z)) else exp z / (1 + exp z))"

text \<open>\<^verbatim>\<open>predict_proba\<close>: \<^verbatim>\<open>self.w[0]\<close> raises on an empty weight list; \<^verbatim>\<open>zip\<close> stops at
  the shorter list.\<close>

definition predict_proba :: "online_logit \<Rightarrow> real list \<Rightarrow> py_error + real" where
  "predict_proba m x =
     (case m_w m of
        [] \<Rightarrow> Inl IndexError
      | w0 # ws \<Rightarrow> Inr (sigmoid (w0 + sum_list (map (\<lambda>(wi, xi). wi * xi) (zip ws x)))))"

text \<open>
  \<^verbatim>\<open>partial_fit\<close> updates the weights in place, one index after the other, and raises
  \<^verbatim>\<open>IndexError\<close> at the first feature that has no weight; the weights written until then
  stay written and \<^verbatim>\<open>n_seen\<close> is not counted. The result is the model as it is left,
  with the exception if one was raised.
\<close>

definition partial_fit ::
  "online_logit \<Rightarrow> real list \<Rightarrow> int \<Rightarrow> real \<Rightarrow> online_logit \<times> py_error option" where
  "partial_fit m x y sample_weight =
     (case predict_proba m x of
        Inl e \<Rightarrow> (m, Some e)
      | Inr p \<Rightarrow>
          (case m_w m of
             [] \<Rightarrow> (m, Some IndexError)
           | w0 # ws \<Rightarrow>
               let g0 = (p - of_int y) * sample_weight;
                   w0' = w0 - m_lr m * (g0 + m_l2 m * w0);
                   ws' = map (\<lambda>(wi, xi). wi - m_lr m * (((p - of_int y) * xi + m_l2 m * wi) * sample_weight))
                           (zip ws x) @ drop (length x) ws
               in if length ws < length x then (m\<lparr>m_w := w0' # ws'\<rparr>, Some IndexError)
                  else (m\<lparr>m_w := w0' # ws', m_n_seen := m_n_seen m + 1\<rparr>, None)))"

text \<open>\<^verbatim>\<open>for _ in range(3): self.model.partial_fit(x, y, sample_weight=w)\<close>\<close>

fun fit_times :: "nat \<Rightarrow> online_logit \<Rightarrow> real list \<Rightarrow> int \<Rightarrow> real \<Rightarrow> online_logit \<times> py_error option" where
  "fit_times 0 m x y sw = (m, None)"
| "fit_times (Suc n) m x y sw =
     (case partial_fit m x y sw of
        (m', Some e) \<Rightarrow> (m', Some e)
      | (m', None) \<Rightarrow> fit_times n m' x y sw)"

text \<open>Appending to a \<^verbatim>\<open>deque(maxlen=200)\<close> drops the oldest entries.\<close>

definition deque_append :: "'a list \<Rightarrow> 'a \<Rightarrow> 'a list" where
  "deque_append xs x = (let ys = xs @ [x] in drop (length ys - 200) ys)"

text \<open>The panel aliases: \<^verbatim>\<open>POS1\<close> is the live account, \<^verbatim>\<open>POS2\<close> the simulated one.\<close>

definition norm_source :: "string \<Rightarrow> string" where
  "norm_source W = (if W = ''POS1'' then ''LIVE'' else if W = ''POS2'' then ''SIM'' else W)"

text \<open>\<^verbatim>\<open>MLManager._ok\<close>\<close>

definition source_ok :: "ml_manager \<Rightarrow> string \<Rightarrow> bool" where
  "source_ok ml which = (norm_source (upper which) \<in> train_sources ml)"

text \<open>\<^verbatim>\<open>MLManager.record_open\<close>\<close>

definition record_open ::
  "ml_manager \<Rightarrow> string \<Rightarrow> string \<Rightarrow> real list option \<Rightarrow> real option \<Rightarrow> ml_manager" where
  "record_open ml which symbol x p =
     (let Wn = norm_source (upper which);
          S = upper symbol
      in if \<not> source_ok ml Wn then ml
         else
           let key = (Wn, S);
               ml1 = (case x of None \<Rightarrow> ml
                      | Some xv \<Rightarrow> ml\<lparr>open_feats := (open_feats ml)(key \<mapsto> xv)\<rparr>)
           in case p of None \<Rightarrow> ml1
              | Some pv \<Rightarrow> ml1\<lparr>open_probs := (open_probs ml1)(key \<mapsto> pv)\<rparr>)"

text \<open>
  The label of \<^verbatim>\<open>MLManager.record_close\<close>: \<open>r_like\<close> is the return on notional divided by
  the unit 0.0012 when a return is given, and plus or minus one by the sign of the cash
  result otherwise.
\<close>

definition r_like :: "real \<Rightarrow> real option \<Rightarrow> real" where
  "r_like pnl_cash ret_pct_on_notional =
     (case ret_pct_on_notional of
        Some move_pct \<Rightarrow> move_pct / (12 / 10000)
      | None \<Rightarrow> (if 0 < pnl_cash then 1 else - 1))"

definition r_label :: "real \<Rightarrow> real option \<Rightarrow> int" where
  "r_label pnl_cash ret_pct_on_notional =
     (let r = r_like pnl_cash ret_pct_on_notional
      in if 1 \<le> r then 1
         else if r \<le> - 1 then 0
         else (if 0 < pnl_cash then 1 else 0))"

text \<open>The class-imbalance weight of one training sample.\<close>

definition sample_weight_of :: "int \<Rightarrow> int \<Rightarrow> int \<Rightarrow> real" where
  "sample_weight_of y pos neg =
     (let total = max 1 (pos + neg);
          pos_ratio = of_int pos / of_int total;
          neg_ratio = of_int neg / of_int total;
          w1 = (if y = 1 \<and> pos_ratio < 35 / 100
                then min 3 ((35 / 100) / max (1 / 10 ^ 6) pos_ratio) else 1);
          w2 = (if y = 0 \<and> neg_ratio < 35 / 100
                then min 3 ((35 / 100) / max (1 / 10 ^ 6) neg_ratio) else w1)
      in if y = 1 then w2 * 2 else w2)"

text \<open>
  \<^verbatim>\<open>MLManager.record_close\<close>. An exception of \<^verbatim>\<open>partial_fit\<close> leaves the method before
  the CSV row is written; the caller catches it, so the manager as it is left is the
  result in both cases.
\<close>

definition record_close ::
  "config \<Rightarrow> ml_manager \<Rightarrow> string \<Rightarrow> string \<Rightarrow> real \<Rightarrow> real option \<Rightarrow> ml_manager" where
  "record_close cfg ml which symbol pnl_cash ret_pct_on_notional =
     (let Wn = norm_source (upper which);
          S = upper symbol
      in if \<not> source_ok ml Wn then ml
         else
           let key = (Wn, S);
               x = open_feats ml key;
               p = open_probs ml key;
               ml1 = ml\<lparr>open_feats := (open_feats ml)(key := None),
                        open_probs := (open_probs ml)(key := None)\<rparr>
           in case x of
                None \<Rightarrow> ml1\<lparr>recent := deque_append (recent ml1) (1 / 2, if 0 < pnl_cash then 1 else 0)\<rparr>
              | Some xv \<Rightarrow>
                  let y = r_label pnl_cash ret_pct_on_notional;
                      ml2 = (if y = 1 then ml1\<lparr>pos_seen := pos_seen ml1 + 1\<rparr>
                             else ml1\<lparr>neg_seen := neg_seen ml1 + 1\<rparr>);
                      can_train = (AI_ENABLE cfg \<and> train_after_seen ml2 \<le> pos_seen ml2 + neg_seen ml2);
                      ml3 = (case p of None \<Rightarrow> ml2
                             | Some pv \<Rightarrow> ml2\<lparr>recent := deque_append (recent ml2) (pv, y)\<rparr>);
                      row = (Wn, S, xv, y, p, r_like pnl_cash ret_pct_on_notional)
                  in if can_train then
                       (case fit_times 3 (model ml3) xv y (sample_weight_of y (pos_seen ml3) (neg_seen ml3)) of
                          (m', Some e) \<Rightarrow> ml3\<lparr>model := m'\<rparr>
                        | (m', None) \<Rightarrow> ml3\<lparr>model := m', samples_csv := samples_csv ml3 @ [row]\<rparr>)
                     else ml3\<lparr>samples_csv := samples_csv ml3 @ [row]\<rparr>)"

section \<open>Positions and global state\<close>

text \<open>
  A position is a Python dictionary. The keys \<^verbatim>\<open>side\<close>, \<^verbatim>\<open>qty\<close> and \<^verbatim>\<open>entry\<close> are set
  wherever the program creates one; for the other keys an absent key and a \<^verbatim>\<open>None\<close>
  value are both \<open>None\<close>, as \<^verbatim>\<open>p.get(k)\<close> reads them.
\<close>

record position =
  p_side :: string
  p_qty :: real
  p_entry :: real
  p_sl :: "real option"
  p_tp :: "real option"
  p_trail :: "real option"
  p_ml_feat :: "real list option"
  p_opened_ts :: "int option"
  p_risk_R :: "real option"
  p_pos_uid :: "string option"

text \<open>\<^verbatim>\<open>SymbolState\<close>, without the candle buffers and indicators.\<close>

record symbol_state =
  st_symbol :: string
  position_live :: "position option"
  position_sim :: "position option"

definition new_symbol_state :: "string \<Rightarrow> symbol_state" where
  "new_symbol_state symb = \<lparr> st_symbol = symb, position_live = None, position_sim = None \<rparr>"

text \<open>The versioned record \<^verbatim>\<open>snapshot_sim_state\<close> builds and \<^verbatim>\<open>json.dump\<close> writes.\<close>

record snap_position =
  sp_side :: string
  sp_qty :: real
  sp_entry :: real
  sp_sl :: "real option"
  sp_tp :: "real option"

record snap_account =
  sa_balance :: real
  sa_daily_start_equity :: real
  sa_daily_pnl :: real
  sa_total_pnl :: real

record snapshot =
  snap_ver :: int
  snap_ts :: int
  snap_acct :: snap_account
  snap_trades :: "trade list"
  snap_positions :: "string \<rightharpoonup> snap_position"

text \<open>
  The module-level globals. \<open>trades_csv\<close> is the trade ledger file (each row with its
  account column), \<open>sim_state_file\<close> the content of \<^verbatim>\<open>STATE_PATH\<close>, read back by
  \<^verbatim>\<open>json.load\<close> as it was written.
\<close>

record state =
  SYMAP :: "string \<rightharpoonup> symbol_state"
  ACCOUNT_LIVE :: account
  ACCOUNT_SIM :: account
  TRAINED_POS_UIDS :: "uid set"
  LAST_CLOSE_TS :: "string \<times> string \<rightharpoonup> int"
  OPEN_INFLIGHT :: "string set"
  ml_mgr :: ml_manager
  loss_streak_by_sym :: "string \<rightharpoonup> int"
  suspend_until_ts_by_sym :: "string \<rightharpoonup> real"
  trades_csv :: "(string \<times> trade) list"
  sim_state_file :: "snapshot option"
  last_state_save :: real
  SIM_STATE_DONE :: bool

text \<open>
  What one call reads from outside the program: the millisecond clock at the debounce
  check and at the re-keying of an id, the clock in seconds, the formatted timestamp, the
  exchange's answer to the reduce-only market close (its average price, \<open>None\<close> when the
  call raised), the commission found for the position (\<open>None\<close> when the fetch raised) and
  the feature vector computed from the current indicators (\<open>None\<close> when there is none).
\<close>

record env =
  utc_ms :: int
  utc_ms_uid :: int
  time_s :: real
  ts_str :: string
  live_close :: "real option"
  commission :: "real option"
  features_from_state :: "real list option"

definition get_pos :: "symbol_state \<Rightarrow> string \<Rightarrow> position option" where
  "get_pos st which = (if upper which = ''LIVE'' then position_live st else position_sim st)"

definition set_pos :: "symbol_state \<Rightarrow> string \<Rightarrow> position option \<Rightarrow> symbol_state" where
  "set_pos st which pos =
     (if upper which = ''LIVE'' then st\<lparr>position_live := pos\<rparr> else st\<lparr>position_sim := pos\<rparr>)"

text \<open>\<^verbatim>\<open>get_account\<close> on the state, and the write through the reference it returns.\<close>

definition account_of :: "state \<Rightarrow> string \<Rightarrow> account" where
  "account_of s which = get_account (ACCOUNT_LIVE s) (ACCOUNT_SIM s) which"

definition put_account :: "string \<Rightarrow> account \<Rightarrow> state \<Rightarrow> state" where
  "put_account which acc s =
     (if upper which = ''LIVE'' then s\<lparr>ACCOUNT_LIVE := acc\<rparr> else s\<lparr>ACCOUNT_SIM := acc\<rparr>)"

section \<open>Persistence of the simulated account\<close>

text \<open>\<^verbatim>\<open>float(p.get(k, 0.0)) if p.get(k) else None\<close>: a missing, \<^verbatim>\<open>None\<close> or zero value is
  stored as \<^verbatim>\<open>None\<close>.\<close>

definition truthy_float :: "real option \<Rightarrow> real option" where
  "truthy_float x = (case x of None \<Rightarrow> None | Some v \<Rightarrow> if v = 0 then None else Some v)"

text \<open>\<^verbatim>\<open>float(a or b)\<close>\<close>

definition float_or :: "real option \<Rightarrow> real \<Rightarrow> real" where
  "float_or a b = (case a of None \<Rightarrow> b | Some v \<Rightarrow> if v = 0 then b else v)"

text \<open>\<^verbatim>\<open>xs[-500:]\<close>\<close>

definition last500 :: "'a list \<Rightarrow> 'a list" where
  "last500 xs = drop (length xs - 500) xs"

definition snap_of_position :: "position \<Rightarrow> snap_position" where
  "snap_of_position p =
     \<lparr> sp_side = p_side p, sp_qty = p_qty p, sp_entry = p_entry p,
       sp_sl = truthy_float (p_sl p), sp_tp = truthy_float (p_tp p) \<rparr>"

definition snapshot_sim_state :: "real \<Rightarrow> state \<Rightarrow> snapshot" where
  "snapshot_sim_state now s =
     \<lparr> snap_ver = 1,
       snap_ts = round_down now,
       snap_acct =
         \<lparr> sa_balance = balance (ACCOUNT_SIM s),
           sa_daily_start_equity =
             float_or (daily_start_equity (ACCOUNT_SIM s)) (balance (ACCOUNT_SIM s)),
           sa_daily_pnl = daily_pnl (ACCOUNT_SIM s),
           sa_total_pnl = total_pnl (ACCOUNT_SIM s) \<rparr>,
       snap_trades = last500 (trades (ACCOUNT_SIM s)),
       snap_positions =
         (\<lambda>symb. case SYMAP s symb of
                  None \<Rightarrow> None
                | Some st \<Rightarrow> map_option snap_of_position (position_sim st)) \<rparr>"

text \<open>
  \<^verbatim>\<open>persist_sim_state\<close>: unless forced, at most one write per \<^verbatim>\<open>AUTOSAVE_SEC = 15\<close>
  seconds. The write itself (temporary file, then atomic replace) is taken to succeed.
\<close>

definition persist_sim_state :: "bool \<Rightarrow> real \<Rightarrow> state \<Rightarrow> state" where
  "persist_sim_state force now s =
     (if \<not> force \<and> now - last_state_save s < 15 then s
      else s\<lparr>sim_state_file := Some (snapshot_sim_state now s), last_state_save := now\<rparr>)"

definition position_of_snap :: "snap_position \<Rightarrow> position" where
  "position_of_snap p =
     \<lparr> p_side = sp_side p, p_qty = sp_qty p, p_entry = sp_entry p,
       p_sl = truthy_float (sp_sl p), p_tp = truthy_float (sp_tp p), p_trail = None,
       p_ml_feat = None, p_opened_ts = None, p_risk_R = None, p_pos_uid = None \<rparr>"

text \<open>\<^verbatim>\<open>_ensure_sym_exists\<close> followed by the assignment to \<^verbatim>\<open>st.position_sim\<close>, for every
  symbol of the stored positions.\<close>

definition restore_positions ::
  "(string \<rightharpoonup> snap_position) \<Rightarrow> (string \<rightharpoonup> symbol_state) \<Rightarrow> (string \<rightharpoonup> symbol_state)" where
  "restore_positions ps m =
     (\<lambda>symb. case ps symb of
              None \<Rightarrow> m symb
            | Some p \<Rightarrow>
                Some ((case m symb of None \<Rightarrow> new_symbol_state symb | Some st \<Rightarrow> st)
                        \<lparr>position_sim := Some (position_of_snap p)\<rparr>))"

text \<open>\<^verbatim>\<open>restore_sim_state\<close>: runs once; without a state file it only marks itself done.\<close>

definition restore_sim_state :: "state \<Rightarrow> state" where
  "restore_sim_state s =
     (if SIM_STATE_DONE s then s
      else case sim_state_file s of
             None \<Rightarrow> s\<lparr>SIM_STATE_DONE := True\<rparr>
           | Some data \<Rightarrow>
               s\<lparr>ACCOUNT_SIM :=
                    (ACCOUNT_SIM s)
                      \<lparr>balance := sa_balance (snap_acct data),
                       daily_start_equity := Some (sa_daily_start_equity (snap_acct data)),
                       daily_pnl := sa_daily_pnl (snap_acct data),
                       total_pnl := sa_total_pnl (snap_acct data),
                       trades := snap_trades data\<rparr>,
                 SYMAP := restore_positions (snap_positions data) (SYMAP s),
                 SIM_STATE_DONE := True\<rparr>)"

text \<open>The five stored fields of the simulated position of a symbol.\<close>

definition sim_position_view :: "state \<Rightarrow> string \<Rightarrow> (string \<times> real \<times> real \<times> real option \<times> real option) option" where
  "sim_position_view s symb =
     (case SYMAP s symb of
        None \<Rightarrow> None
      | Some st \<Rightarrow>
          map_option (\<lambda>p. (p_side p, p_qty p, p_entry p, p_sl p, p_tp p)) (position_sim st))"

section \<open>Close and settlement pipeline\<close>

text \<open>
  \<^verbatim>\<open>_close_too_soon\<close>: the key is the upper-cased (account, symbol) pair; a call less than
  \<open>min_ms\<close> after the last accepted one answers \<open>True\<close> and leaves the stamp alone, any
  other call stamps the key with the current time.
\<close>

definition close_too_soon :: "string \<Rightarrow> string \<Rightarrow> int \<Rightarrow> int \<Rightarrow> state \<Rightarrow> bool \<times> state" where
  "close_too_soon which symbol min_ms now s =
     (let key = (upper which, upper symbol);
          last = (case LAST_CLOSE_TS s key of None \<Rightarrow> 0 | Some t \<Rightarrow> t)
      in if now - last < min_ms then (True, s)
         else (False, s\<lparr>LAST_CLOSE_TS := (LAST_CLOSE_TS s)(key \<mapsto> now)\<rparr>))"

text \<open>Python's \<^verbatim>\<open>round(x, n)\<close>, as rounding half to even at \<open>n\<close> decimals.\<close>

definition py_round :: "real \<Rightarrow> nat \<Rightarrow> real" where
  "py_round x n = of_int (round_half_even (x * 10 ^ n)) / 10 ^ n"

text \<open>\<^verbatim>\<open>p.get("pos_uid") or f"{which}:{symbol}:{p.get('entry')}:{p.get('qty')}"\<close>\<close>

definition uid_of_position :: "string \<Rightarrow> string \<Rightarrow> position \<Rightarrow> uid" where
  "uid_of_position which symbol p =
     (case p_pos_uid p of
        None \<Rightarrow> Derived which symbol (p_entry p) (p_qty p)
      | Some u \<Rightarrow> if u = [] then Derived which symbol (p_entry p) (p_qty p) else Tagged u)"

text \<open>The exit price: a live close that is not skipped takes the exchange's average price
  when the order went through with a positive one.\<close>

definition exit_price :: "env \<Rightarrow> string \<Rightarrow> bool \<Rightarrow> real \<Rightarrow> real" where
  "exit_price env which skip_exchange px =
     (if upper which = ''LIVE'' \<and> \<not> skip_exchange
      then (case live_close env of
              Some ap \<Rightarrow> if 0 < ap then ap else px
            | None \<Rightarrow> px)
      else px)"

definition gross_pnl :: "position \<Rightarrow> real \<Rightarrow> real" where
  "gross_pnl p px = p_qty p * (px - p_entry p) * (if p_side p = ''LONG'' then 1 else - 1)"

definition fee_usdt :: "config \<Rightarrow> env \<Rightarrow> string \<Rightarrow> position \<Rightarrow> real" where
  "fee_usdt cfg env which p =
     (if upper which = ''LIVE''
      then (case commission env of Some f \<Rightarrow> f | None \<Rightarrow> 0)
      else TAKER_FEE_PCT cfg / 100 * (p_qty p * p_entry p * 2))"

definition net_pnl :: "config \<Rightarrow> env \<Rightarrow> string \<Rightarrow> position \<Rightarrow> real \<Rightarrow> real" where
  "net_pnl cfg env which p px = gross_pnl p px - fee_usdt cfg env which p"

definition net_pct_on_notional :: "position \<Rightarrow> real \<Rightarrow> real" where
  "net_pct_on_notional p net =
     (let notional = p_qty p * p_entry p
      in if 0 < notional then net / notional * 100 else 0)"

text \<open>The ledger update: \<^verbatim>\<open>total_pnl\<close> for either account, balance and daily result only
  under the name \<^verbatim>\<open>SIM\<close>.\<close>

definition book_pnl :: "string \<Rightarrow> real \<Rightarrow> account \<Rightarrow> account" where
  "book_pnl which net acc =
     (let acc1 = acc\<lparr>total_pnl := total_pnl acc + net\<rparr>
      in if upper which = ''SIM''
         then acc1\<lparr>balance := balance acc1 + net, daily_pnl := daily_pnl acc1 + net\<rparr>
         else acc1)"

definition trade_row ::
  "config \<Rightarrow> env \<Rightarrow> string \<Rightarrow> string \<Rightarrow> real \<Rightarrow> string \<Rightarrow> position \<Rightarrow> uid \<Rightarrow> trade" where
  "trade_row cfg env symbol reason px which p u =
     (let net = net_pnl cfg env which p px
      in \<lparr> t_ts = ts_str env, t_symbol = symbol, t_side = p_side p,
           t_entry = py_round (p_entry p) 6, t_exit = py_round px 6,
           t_qty = py_round (p_qty p) 8, t_pnl_cash = py_round net 2,
           t_net_pct = py_round (net_pct_on_notional p net) 3,
           t_fee_usdt = py_round (fee_usdt cfg env which p) 6,
           t_risk_R = float_or0 (p_risk_R p), t_pos_uid = u,
           t_reason = reason @ '' ('' @ which @ '')'' \<rparr>)"

text \<open>The loss-streak guard at the end of a settlement.\<close>

definition update_loss_streak :: "config \<Rightarrow> env \<Rightarrow> string \<Rightarrow> real \<Rightarrow> state \<Rightarrow> state" where
  "update_loss_streak cfg env symbol net s =
     (if net \<le> 0 then
        (let n = (case loss_streak_by_sym s symbol of None \<Rightarrow> 0 | Some k \<Rightarrow> k) + 1;
             s1 = s\<lparr>loss_streak_by_sym := (loss_streak_by_sym s)(symbol \<mapsto> n)\<rparr>
         in if LOSS_STREAK_LIMIT cfg \<le> n
            then s1\<lparr>suspend_until_ts_by_sym :=
                      (suspend_until_ts_by_sym s1)(symbol \<mapsto> time_s env + LOSS_SUSPEND_SECONDS cfg)\<rparr>
            else s1)
      else s\<lparr>loss_streak_by_sym := (loss_streak_by_sym s)(symbol \<mapsto> 0)\<rparr>)"

text \<open>
  The local settlement of \<^verbatim>\<open>close_position_one\<close>, from the exchange close to the
  loss-streak guard, for the position \<open>p\<close> read from \<open>st\<close> and the id \<open>u\<close> it is booked
  under. Console output, cancelling of resting orders and the background force-close
  thread act outside the modelled state.
\<close>

definition settle ::
  "config \<Rightarrow> env \<Rightarrow> string \<Rightarrow> string \<Rightarrow> real \<Rightarrow> string \<Rightarrow> bool \<Rightarrow> symbol_state \<Rightarrow> position \<Rightarrow> uid
     \<Rightarrow> state \<Rightarrow> state" where
  "settle cfg env symbol reason px0 which skip_exchange st p u s0 =
     (let px = exit_price env which skip_exchange px0;
          net = net_pnl cfg env which p px;
          pct = net_pct_on_notional p net;
          row = trade_row cfg env symbol reason px which p u;
          acc = book_pnl which net (account_of s0 which);
          s1 = put_account which (acc\<lparr>trades := trades acc @ [row]\<rparr>) s0;
          s2 = (if LOG_TRADES_ON cfg then s1\<lparr>trades_csv := trades_csv s1 @ [(which, row)]\<rparr> else s1);
          key = (upper which, st_symbol st);
          s3 = (if open_feats (ml_mgr s2) key = None then
                  (case (case p_ml_feat p of None \<Rightarrow> features_from_state env | Some f \<Rightarrow> Some f) of
                     None \<Rightarrow> s2
                   | Some feat \<Rightarrow>
                       s2\<lparr>ml_mgr := record_open (ml_mgr s2) which (st_symbol st) (Some feat) None\<rparr>)
                else s2);
          s4 = s3\<lparr>SYMAP := (SYMAP s3)(symbol \<mapsto> set_pos st which None)\<rparr>;
          s5 = (if upper which = ''LIVE'' then s4\<lparr>OPEN_INFLIGHT := OPEN_INFLIGHT s4 - {symbol}\<rparr> else s4);
          s6 = s5\<lparr>ml_mgr := record_close cfg (ml_mgr s5) which (st_symbol st) net (Some (pct / 100))\<rparr>;
          s7 = (if upper which = ''SIM'' then persist_sim_state True (time_s env) s6 else s6)
      in update_loss_streak cfg env symbol net s7)"

text \<open>
  \<^verbatim>\<open>close_position_one\<close>. \<^verbatim>\<open>SYMAP[symbol]\<close> raises for an unknown symbol. The debounce
  check runs before the test for an open position. A position whose id is already in
  the dedup set is settled under a fresh, time-stamped id when its quantity and entry
  are both non-zero, and only cleared otherwise.
\<close>

definition close_position_one ::
  "config \<Rightarrow> env \<Rightarrow> string \<Rightarrow> string \<Rightarrow> real \<Rightarrow> string \<Rightarrow> bool \<Rightarrow> state \<Rightarrow> py_error + state" where
  "close_position_one cfg env symbol reason px which skip_exchange s =
     (case SYMAP s symbol of
        None \<Rightarrow> Inl KeyError
      | Some st \<Rightarrow>
          let p = get_pos st which;
              soon = fst (close_too_soon which symbol 600 (utc_ms env) s);
              s1 = snd (close_too_soon which symbol 600 (utc_ms env) s)
          in if soon then Inr s1
             else
               (case p of
                 None \<Rightarrow> Inr s1
               | Some pv \<Rightarrow>
                   let pos_uid = uid_of_position which symbol pv
                   in if pos_uid \<in> TRAINED_POS_UIDS s1 then
                        (if 0 < abs (p_qty pv) \<and> 0 < abs (p_entry pv) then
                           (let u = Retimed which symbol (p_entry pv) (p_qty pv) (utc_ms_uid env)
                            in Inr (settle cfg env symbol reason px which skip_exchange st pv u
                                      (s1\<lparr>TRAINED_POS_UIDS := insert u (TRAINED_POS_UIDS s1)\<rparr>)))
                         else Inr (s1\<lparr>SYMAP := (SYMAP s1)(symbol \<mapsto> set_pos st which None)\<rparr>))
                      else Inr (settle cfg env symbol reason px which skip_exchange st pv pos_uid
                                  (s1\<lparr>TRAINED_POS_UIDS := insert pos_uid (TRAINED_POS_UIDS s1)\<rparr>))))"

text \<open>The account a settlement writes back: the ledger update, then the appended trade.\<close>

definition settled_account :: "config \<Rightarrow> env \<Rightarrow> string \<Rightarrow> string \<Rightarrow> real \<Rightarrow> string \<Rightarrow> bool \<Rightarrow> position \<Rightarrow> uid \<Rightarrow> state \<Rightarrow> account" where
  "settled_account cfg env symbol reason px0 which skip_exchange p u s0 =
     (let px = exit_price env which skip_exchange px0;
          acc = book_pnl which (net_pnl cfg env which p px) (account_of s0 which)
      in acc\<lparr>trades := trades acc @ [trade_row cfg env symbol reason px which p u]\<rparr>)"

text \<open>The state after an accepted debounce check.\<close>

definition stamped :: "string \<Rightarrow> string \<Rightarrow> int \<Rightarrow> state \<Rightarrow> state" where
  "stamped which symbol now s =
     s\<lparr>LAST_CLOSE_TS := (LAST_CLOSE_TS s)((upper which, upper symbol) \<mapsto> now)\<rparr>"

text \<open>The id a position is booked under when the dedup check lets it through.\<close>

definition booking_uid :: "env \<Rightarrow> string \<Rightarrow> string \<Rightarrow> position \<Rightarrow> state \<Rightarrow> uid" where
  "booking_uid env which symbol pv s =
     (if uid_of_position which symbol pv \<in> TRAINED_POS_UIDS s
      then Retimed which symbol (p_entry pv) (p_qty pv) (utc_ms_uid env)
      else uid_of_position which symbol pv)"

text \<open>A series of close triggers for one (account, symbol), each with what it reads from
  outside, its reason, its reference price and its skip flag.\<close>

fun close_triggers ::
  "config \<Rightarrow> string \<Rightarrow> string \<Rightarrow> (env \<times> string \<times> real \<times> bool) list \<Rightarrow> state \<Rightarrow> py_error + state" where
  "close_triggers cfg symbol which [] s = Inr s"
| "close_triggers cfg symbol which ((env, reason, px, skip_exchange) # cs) s =
     (case close_position_one cfg env symbol reason px which skip_exchange s of
        Inl e \<Rightarrow> Inl e
      | Inr s' \<Rightarrow> close_triggers cfg symbol which cs s')"

section \<open>Reconciliation backoff\<close>

text \<open>
  The three globals \<^verbatim>\<open>sync_live_positions_periodic\<close> keeps, and the outcome of its
  request to the exchange: an answer, a \<^verbatim>\<open>requests\<close> transport exception, or any other
  exception.
\<close>

record net_state =
  NET_BACKOFF_UNTIL :: real
  NET_BACKOFF_STEP :: real
  last_pos_sync :: real

datatype fetch_result = Fetched | RequestException | OtherException

definition NET_BACKOFF_MAX :: real where
  "NET_BACKOFF_MAX = 5 * 60"

definition POS_SYNC_SECONDS :: real where
  "POS_SYNC_SECONDS = 5"

definition net_state_init :: net_state where
  "net_state_init = \<lparr> NET_BACKOFF_UNTIL = 0, NET_BACKOFF_STEP = 60, last_pos_sync = 0 \<rparr>"

text \<open>
  The head of \<^verbatim>\<open>sync_live_positions_periodic\<close>, up to the point where the position
  diff starts. \<open>enabled\<close> is the test for API keys and a non-test network; the boolean of
  the result tells whether the diff runs.
\<close>

definition sync_live_positions_periodic ::
  "bool \<Rightarrow> real \<Rightarrow> fetch_result \<Rightarrow> net_state \<Rightarrow> net_state \<times> bool" where
  "sync_live_positions_periodic enabled now res ns =
     (if \<not> enabled then (ns, False)
      else if now < NET_BACKOFF_UNTIL ns then (ns, False)
      else if now - last_pos_sync ns < POS_SYNC_SECONDS then (ns, False)
      else
        let ns1 = ns\<lparr>last_pos_sync := now\<rparr>
        in case res of
             Fetched \<Rightarrow> (ns1\<lparr>NET_BACKOFF_UNTIL := 0, NET_BACKOFF_STEP := 60\<rparr>, True)
           | RequestException \<Rightarrow>
               (ns1\<lparr>NET_BACKOFF_UNTIL := now + NET_BACKOFF_STEP ns1,
                     NET_BACKOFF_STEP := min NET_BACKOFF_MAX (NET_BACKOFF_STEP ns1 * (17 / 10))\<rparr>,
                False)
           | OtherException \<Rightarrow> (ns1, False))"

text \<open>A call that gets as far as the request: sync is enabled, no backoff is pending and
  the sync period has passed.\<close>

definition attempts :: "real \<Rightarrow> net_state \<Rightarrow> bool" where
  "attempts now ns = (\<not> now < NET_BACKOFF_UNTIL ns \<and> \<not> now - last_pos_sync ns < POS_SYNC_SECONDS)"

text \<open>
  Consecutive transport failures at the given times: the backoff window each one opens
  (the distance from the call to the new \<^verbatim>\<open>_NET_BACKOFF_UNTIL\<close>), the state they leave,
  and whether each call got as far as the request.
\<close>

fun failure_windows :: "real list \<Rightarrow> net_state \<Rightarrow> real list" where
  "failure_windows [] ns = []"
| "failure_windows (now # ts) ns =
     (let ns' = fst (sync_live_positions_periodic True now RequestException ns)
      in (NET_BACKOFF_UNTIL ns' - now) # failure_windows ts ns')"

fun after_failures :: "real list \<Rightarrow> net_state \<Rightarrow> net_state" where
  "after_failures [] ns = ns"
| "after_failures (now # ts) ns =
     after_failures ts (fst (sync_live_positions_periodic True now RequestException ns))"

fun all_attempted :: "real list \<Rightarrow> net_state \<Rightarrow> bool" where
  "all_attempted [] ns = True"
| "all_attempted (now # ts) ns =
     (attempts now ns
      \<and> all_attempted ts (fst (sync_live_positions_periodic True now RequestException ns)))"

section \<open>Initial values\<close>

text \<open>\<^verbatim>\<open>OnlineLogit.__init__\<close> and \<^verbatim>\<open>MLManager.__init__\<close> (the learner is built with eight
  features, learning rate 0.05 and L2 penalty 1e-6; an empty or missing set of training
  sources stands for the live account alone, and the names are upper-cased).\<close>

definition new_online_logit :: "nat \<Rightarrow> real \<Rightarrow> real \<Rightarrow> online_logit" where
  "new_online_logit n_features lr l2 =
     \<lparr> m_w = replicate (n_features + 1) 0, m_lr = lr, m_l2 = l2, m_n_seen = 0 \<rparr>"

definition new_ml_manager :: "real \<Rightarrow> string set \<Rightarrow> int \<Rightarrow> ml_manager" where
  "new_ml_manager th sources after_seen =
     \<lparr> threshold = th, model = new_online_logit 8 (5 / 100) (1 / 10 ^ 6), recent = [],
       open_feats = Map.empty, open_probs = Map.empty, pos_seen = 0, neg_seen = 0,
       train_sources = upper ` (if sources = {} then {''LIVE''} else sources),
       train_after_seen = after_seen, samples_csv = [] \<rparr>"

text \<open>The module globals as they are right after import, with the default settings.\<close>

definition new_state :: state where
  "new_state =
     \<lparr> SYMAP = Map.empty, ACCOUNT_LIVE = new_account, ACCOUNT_SIM = new_account,
       TRAINED_POS_UIDS = {}, LAST_CLOSE_TS = Map.empty, OPEN_INFLIGHT = {},
       ml_mgr = new_ml_manager (55 / 100) {''LIVE'', ''SIM''} 80,
       loss_streak_by_sym = Map.empty, suspend_until_ts_by_sym = Map.empty,
       trades_csv = [], sim_state_file = None, last_state_save = 0, SIM_STATE_DONE = False \<rparr>"

text \<open>A manager with threshold one half that has counted 80 outcomes and 30 gradient
  steps, and the default settings with the AI decision switched on.\<close>

definition trained_manager :: ml_manager where
  "trained_manager =
     (new_ml_manager (1 / 2) {''LIVE'', ''SIM''} 80)
       \<lparr>model := (new_online_logit 8 (5 / 100) (1 / 10 ^ 6))\<lparr>m_n_seen := 30\<rparr>,
        pos_seen := 40, neg_seen := 40\<rparr>"

definition ai_config :: config where
  "ai_config = default_config\<lparr>AI_ENABLE := True\<rparr>"

text \<open>Sample values: an eight-entry feature vector, a manager holding it as the open
  sample of the simulated account on one symbol, an open simulated position, a state
  that tracks the symbol with that position, and the readings of one call.\<close>

definition sample_features :: "real list" where
  "sample_features = [1 / 2, 0, 0, 1 / 100, 0, 0, 1 / 100, 0]"

definition manager_with_open :: ml_manager where
  "manager_with_open =
     record_open (new_ml_manager (55 / 100) {''LIVE'', ''SIM''} 80) ''SIM'' ''BTCUSDT''
       (Some sample_features) None"

definition sample_position :: position where
  "sample_position =
     \<lparr> p_side = ''LONG'', p_qty = 1, p_entry = 100, p_sl = Some 98, p_tp = Some 104,
       p_trail = None, p_ml_feat = None, p_opened_ts = Some 900000, p_risk_R = Some 2,
       p_pos_uid = Some ''SIM:BTCUSDT:900000:0a1b2c3d'' \<rparr>"

definition sample_state :: state where
  "sample_state =
     new_state
       \<lparr>SYMAP := [''BTCUSDT'' \<mapsto> (new_symbol_state ''BTCUSDT'')\<lparr>position_sim := Some sample_position\<rparr>],
        ACCOUNT_SIM := new_account\<lparr>daily_start_equity := Some 10000\<rparr>\<rparr>"

definition sample_env :: env where
  "sample_env =
     \<lparr> utc_ms = 1000000, utc_ms_uid = 1000001, time_s = 1000, ts_str = ''2025-01-01 00:00:00'',
       live_close = None, commission = None, features_from_state = None \<rparr>"

text \<open>A state whose position is on the live account.\<close>

definition sample_live_state :: state where
  "sample_live_state =
     new_state\<lparr>SYMAP := [''BTCUSDT'' \<mapsto>
        (new_symbol_state ''BTCUSDT'')\<lparr>position_live := Some sample_position\<rparr>]\<rparr>"

section \<open>Evaluation facts\<close>

lemma upper_SIM: "upper ''SIM'' = ''SIM''"
  by (simp add: upper_def upper_char_def)

lemma upper_LIVE: "upper ''LIVE'' = ''LIVE''"
  by (simp add: upper_def upper_char_def)

section \<open>Sizing: theorems\<close>

lemma pow10_pos: "0 < (10::real) powi k"
  by simp

lemma sig_exponent_bounds:
  assumes "x \<noteq> 0"
  shows "10 powi (sig_exponent x) \<le> \<bar>x\<bar>" and "\<bar>x\<bar> < 10 powi (sig_exponent x + 1)"
proof -
  have pos: "0 < \<bar>x\<bar>" using assms by simp
  have "of_int (sig_exponent x) \<le> log 10 \<bar>x\<bar>" by (simp add: sig_exponent_def)
  then have "10 powr (of_int (sig_exponent x)) \<le> \<bar>x\<bar>"
    using pos by (simp add: le_log_iff)
  then show "10 powi (sig_exponent x) \<le> \<bar>x\<bar>"
    by (simp add: powr_real_of_int')
  have "log 10 \<bar>x\<bar> < of_int (sig_exponent x + 1)"
    unfolding sig_exponent_def by linarith
  then have "\<bar>x\<bar> < 10 powr (of_int (sig_exponent x + 1))"
    using pos by (simp add: log_less_iff)
  then show "\<bar>x\<bar> < 10 powi (sig_exponent x + 1)"
    by (simp only: powr_real_of_int' [of 10, simplified])
qed

lemma sig_exponent_less:
  assumes "x \<noteq> 0" and "\<bar>x\<bar> < 10 powi k"
  shows "sig_exponent x < k"
proof (rule ccontr)
  assume "\<not> sig_exponent x < k"
  then have "k \<le> sig_exponent x" by simp
  then have "(10::real) powi k \<le> 10 powi (sig_exponent x)"
    by (intro power_int_increasing) simp_all
  then show False using sig_exponent_bounds(1) [OF assms(1)] assms(2) by linarith
qed


lemma round_half_even_int: "round_half_even (of_int z) = z"
  by (simp add: round_half_even_def)


lemma ctx_round_exact:
  assumes "\<bar>m\<bar> < 10 ^ 28"
  shows "ctx_round (of_int m * 10 powi k) = of_int m * 10 powi k"
proof (cases "m = 0")
  case True
  then show ?thesis by (simp add: ctx_round_def)
next
  case False
  define x :: real where "x = of_int m * 10 powi k"
  have x0: "x \<noteq> 0" using False by (simp add: x_def)
  define e where "e = sig_exponent x - 27"
  have "real_of_int \<bar>m\<bar> < real_of_int (10 ^ 28)"
    using assms by (simp only: of_int_less_iff)
  then have "\<bar>real_of_int m\<bar> < 10 ^ 28" by simp
  then have "\<bar>x\<bar> < 10 ^ 28 * 10 powi k"
    by (simp add: x_def abs_mult pow10_pos)
  then have "\<bar>x\<bar> < 10 powi (28 + k)"
    by (simp add: power_int_add)
  then have "sig_exponent x < 28 + k" by (rule sig_exponent_less [OF x0])
  then have ek: "e \<le> k" by (simp add: e_def)
  define d where "d = nat (k - e)"
  have k: "k = e + int d" using ek by (simp add: d_def)
  have c: "x / 10 powi e = of_int (m * 10 ^ d)"
    by (simp add: x_def k power_int_add)
  have "ctx_round x = of_int (round_half_even (x / 10 powi e)) * 10 powi e"
    using x0 by (simp add: ctx_round_def Let_def e_def)
  also have "\<dots> = of_int (m * 10 ^ d) * 10 powi e"
    by (simp only: c round_half_even_int)
  also have "\<dots> = x"
    by (simp add: x_def k power_int_add)
  finally show ?thesis by (simp add: x_def)
qed













lemma floor_raises_example: "floor_to_step (10 ^ 30) 1 = Inl InvalidOperation"
proof -
  have "ctx_round (of_int 1 * 10 powi 30) = of_int 1 * 10 powi 30"
    by (rule ctx_round_exact) simp
  then have "ctx_round (10 ^ 30) = 10 ^ 30" by simp
  then show ?thesis by (simp add: floor_to_step_def Let_def round_down_def)
qed



text \<open>
  Claim C10. \<^verbatim>\<open>compute_qty\<close> always returns a quantity, never a division error, and the
  quantity is not negative; it is exactly zero when the entry is not positive and, in
  risk mode, when entry and stop coincide.
\<close>

theorem compute_qty_total_nonneg:
  "\<exists>q. compute_qty cfg live sim entry sl which ov = Inr q \<and> 0 \<le> q
       \<and> (float_or0 entry \<le> 0 \<longrightarrow> q = 0)
       \<and> (upper (POSITION_SIZING cfg) \<noteq> ''ALLOC'' \<and> \<bar>float_or0 entry - float_or0 sl\<bar> = 0
            \<longrightarrow> q = 0)"
proof (cases "float_or0 entry \<le> 0")
  case True
  then show ?thesis by (simp add: compute_qty_def)
next
  case pos: False
  show ?thesis
  proof (cases "upper (POSITION_SIZING cfg) = ''ALLOC''")
    case True
    then show ?thesis using pos by (simp add: compute_qty_def py_div_def Let_def)
  next
    case False
    then show ?thesis
      using pos by (auto simp: compute_qty_def notional_risk_def py_div_def Let_def)
  qed
qed

theorem compute_qty_total_nonneg_witness:
  "compute_qty default_config new_account new_account (Some 100) (Some 100) ''SIM'' None = Inr 0
   \<and> compute_qty default_config new_account new_account (Some (- 1)) (Some 98) ''LIVE'' None = Inr 0
   \<and> compute_qty default_config new_account new_account None (Some 98) ''LIVE'' None = Inr 0"
  using compute_qty_total_nonneg [of default_config new_account new_account "Some 100" "Some 100" "''SIM''" None]
    compute_qty_total_nonneg [of default_config new_account new_account "Some (- 1)" "Some 98" "''LIVE''" None]
    compute_qty_total_nonneg [of default_config new_account new_account "None" "Some 98" "''LIVE''" None]
  by (simp add: float_or0_def default_config_def upper_def upper_char_def)

section \<open>Dynamic per-trade risk: theorems\<close>

lemma gain_pos: "th < p \<Longrightarrow> 0 < gain_of p th"
  by (simp add: gain_of_def)

text \<open>
  Claim C3, as the code has it. With the AI decision in use, a probability above the
  threshold and a non-negative base risk, the risk percentage is the base times
  1 + min(1, 1.5 * gain), where gain is the excess of the probability over the threshold
  relative to the room above the threshold: never below the base and never above twice
  the base.
\<close>

theorem per_trade_risk_scaled:
  assumes "use_ai_decision cfg ml" and "threshold ml < p" and "0 \<le> RISK_PER_TRADE_PCT cfg"
  shows "\<exists>r. per_trade_risk cfg ml (Some p) = Some r
            \<and> r = RISK_PER_TRADE_PCT cfg * (1 + min 1 (3 / 2 * gain_of p (threshold ml)))
            \<and> 0 < gain_of p (threshold ml)
            \<and> RISK_PER_TRADE_PCT cfg \<le> r \<and> r \<le> 2 * RISK_PER_TRADE_PCT cfg"
proof -
  let ?g = "gain_of p (threshold ml)"
  let ?b = "RISK_PER_TRADE_PCT cfg"
  have g: "0 < ?g" using assms(2) by (rule gain_pos)
  have eq: "per_trade_risk cfg ml (Some p) = Some (?b * (1 + min 1 (3 / 2 * ?g)))"
    using assms(1,2) by (simp add: per_trade_risk_def Let_def)
  have m1: "0 \<le> min 1 (3 / 2 * ?g)" using g by simp
  have m2: "min 1 (3 / 2 * ?g) \<le> 1" by simp
  have lo: "?b \<le> ?b * (1 + min 1 (3 / 2 * ?g))"
    using assms(3) m1 by (simp add: mult_le_cancel_left1)
  have "?b * (1 + min 1 (3 / 2 * ?g)) \<le> ?b * 2"
    using assms(3) m2 by (intro mult_left_mono) simp_all
  then have hi: "?b * (1 + min 1 (3 / 2 * ?g)) \<le> 2 * ?b" by simp
  show ?thesis using eq g lo hi by blast
qed

theorem per_trade_risk_scaled_witness:
  "per_trade_risk ai_config trained_manager (Some (3 / 4)) = Some (7 / 2)"
proof -
  have h1: "use_ai_decision ai_config trained_manager"
    by (simp add: use_ai_decision_def ai_config_def default_config_def trained_manager_def
        new_ml_manager_def new_online_logit_def)
  have th: "threshold trained_manager = 1 / 2"
    by (simp add: trained_manager_def new_ml_manager_def)
  have h2: "threshold trained_manager < 3 / 4" by (simp add: th)
  have b: "RISK_PER_TRADE_PCT ai_config = 2" by (simp add: ai_config_def default_config_def)
  have h3: "0 \<le> RISK_PER_TRADE_PCT ai_config" by (simp add: b)
  have g: "gain_of (3 / 4) (1 / 2) = 1 / 2" by (simp add: gain_of_def)
  from per_trade_risk_scaled [OF h1 h2 h3] obtain r
    where r1: "per_trade_risk ai_config trained_manager (Some (3 / 4)) = Some r"
      and r2: "r = RISK_PER_TRADE_PCT ai_config * (1 + min 1 (3 / 2 * gain_of (3 / 4) (threshold trained_manager)))"
    by blast
  have "r = 7 / 2" using r2 by (simp add: th g b)
  then show ?thesis using r1 by simp
qed

text \<open>
  Against claim C3 as it is worded: at threshold one half the risk percentage is the
  same, twice the base, for the probabilities 5/6 and 1, so it has stopped growing with
  the probability while still below 2.5 times the base, which it never reaches.
\<close>

theorem per_trade_risk_cap_counterexample:
  "per_trade_risk ai_config trained_manager (Some (5 / 6)) = Some 4
   \<and> per_trade_risk ai_config trained_manager (Some 1) = Some 4
   \<and> (4::real) < 5 / 2 * RISK_PER_TRADE_PCT ai_config"
  by (simp add: per_trade_risk_def use_ai_decision_def ai_config_def default_config_def
      trained_manager_def new_ml_manager_def new_online_logit_def gain_of_def)

section \<open>Training label: theorems\<close>

text \<open>
  Claim C9. With a net return given, the R-like value is the return divided by the unit
  0.0012; the label is 1 when that value is at least 1, 0 when it is at most -1, and
  otherwise 1 exactly when the cash result is positive. For a permitted source with a
  stored open sample, \<^verbatim>\<open>record_close\<close> counts the outcome under that label.
\<close>

theorem r_label_rule:
  "r_like pnl_cash (Some net_pct) = net_pct / (12 / 10000)
   \<and> (1 \<le> r_like pnl_cash (Some net_pct) \<longrightarrow> r_label pnl_cash (Some net_pct) = 1)
   \<and> (r_like pnl_cash (Some net_pct) \<le> - 1 \<longrightarrow> r_label pnl_cash (Some net_pct) = 0)
   \<and> (\<not> 1 \<le> r_like pnl_cash (Some net_pct) \<and> \<not> r_like pnl_cash (Some net_pct) \<le> - 1
        \<longrightarrow> r_label pnl_cash (Some net_pct) = (if 0 < pnl_cash then 1 else 0))
   \<and> (source_ok ml (norm_source (upper which))
        \<and> open_feats ml (norm_source (upper which), upper symbol) = Some x
        \<longrightarrow> pos_seen (record_close cfg ml which symbol pnl_cash (Some net_pct))
              = pos_seen ml + r_label pnl_cash (Some net_pct)
          \<and> neg_seen (record_close cfg ml which symbol pnl_cash (Some net_pct))
              = neg_seen ml + (1 - r_label pnl_cash (Some net_pct)))"
proof -
  have lab: "r_label pnl_cash (Some net_pct) = 0 \<or> r_label pnl_cash (Some net_pct) = 1"
    by (simp add: r_label_def Let_def)
  have rc: "source_ok ml (norm_source (upper which))
        \<and> open_feats ml (norm_source (upper which), upper symbol) = Some x
        \<longrightarrow> pos_seen (record_close cfg ml which symbol pnl_cash (Some net_pct))
              = pos_seen ml + r_label pnl_cash (Some net_pct)
          \<and> neg_seen (record_close cfg ml which symbol pnl_cash (Some net_pct))
              = neg_seen ml + (1 - r_label pnl_cash (Some net_pct))"
    using lab
    by (auto simp: record_close_def Let_def split: option.splits prod.splits)
  show ?thesis using rc by (simp add: r_label_def r_like_def Let_def)
qed

lemma upper_BTCUSDT: "upper ''BTCUSDT'' = ''BTCUSDT''"
  by (simp add: upper_def upper_char_def)

lemma manager_with_open_eq:
  "manager_with_open = (new_ml_manager (55 / 100) {''LIVE'', ''SIM''} 80)
     \<lparr>open_feats := [(''SIM'', ''BTCUSDT'') \<mapsto> sample_features]\<rparr>"
  by (simp add: manager_with_open_def record_open_def source_ok_def norm_source_def
      new_ml_manager_def upper_SIM upper_LIVE upper_BTCUSDT Let_def)

theorem r_label_rule_witness:
  "r_label 5 (Some (24 / 10000)) = 1
   \<and> r_label 5 (Some (- 24 / 10000)) = 0
   \<and> r_label 5 (Some (6 / 10000)) = 1
   \<and> r_label (- 5) (Some (6 / 10000)) = 0
   \<and> pos_seen (record_close default_config manager_with_open ''SIM'' ''BTCUSDT'' 5 (Some (24 / 10000))) = 1
   \<and> neg_seen (record_close default_config manager_with_open ''SIM'' ''BTCUSDT'' 5 (Some (24 / 10000))) = 0"
proof -
  have ok: "source_ok manager_with_open (norm_source (upper ''SIM''))"
    by (simp add: manager_with_open_eq source_ok_def norm_source_def new_ml_manager_def
        upper_SIM upper_LIVE)
  have op: "open_feats manager_with_open (norm_source (upper ''SIM''), upper ''BTCUSDT'') = Some sample_features"
    by (simp add: manager_with_open_eq norm_source_def upper_SIM upper_BTCUSDT)
  have z: "pos_seen manager_with_open = 0" "neg_seen manager_with_open = 0"
    by (simp_all add: manager_with_open_eq new_ml_manager_def)
  note inst = r_label_rule [where ml = manager_with_open and which = "''SIM''"
      and symbol = "''BTCUSDT''" and x = sample_features and cfg = default_config]
  have a: "r_label 5 (Some (24 / 10000)) = 1"
    using inst [of 5 "24 / 10000"] by (simp add: r_like_def)
  have b: "r_label 5 (Some (- 24 / 10000)) = 0"
    using inst [of 5 "- 24 / 10000"] by (simp add: r_like_def)
  have c: "r_label 5 (Some (6 / 10000)) = 1"
    using inst [of 5 "6 / 10000"] by (simp add: r_like_def)
  have d: "r_label (- 5) (Some (6 / 10000)) = 0"
    using inst [of "- 5" "6 / 10000"] by (simp add: r_like_def)
  have e: "pos_seen (record_close default_config manager_with_open ''SIM'' ''BTCUSDT'' 5 (Some (24 / 10000))) = 1
   \<and> neg_seen (record_close default_config manager_with_open ''SIM'' ''BTCUSDT'' 5 (Some (24 / 10000))) = 0"
    using inst [of 5 "24 / 10000"] ok op a by (simp add: z)
  show ?thesis using a b c d e by blast
qed

section \<open>Reconciliation backoff: theorems\<close>

lemma sync_failure_step:
  "attempts now ns \<Longrightarrow>
   fst (sync_live_positions_periodic True now RequestException ns)
     = ns\<lparr>last_pos_sync := now, NET_BACKOFF_UNTIL := now + NET_BACKOFF_STEP ns,
          NET_BACKOFF_STEP := min NET_BACKOFF_MAX (NET_BACKOFF_STEP ns * (17 / 10))\<rparr>"
  by (simp add: sync_live_positions_periodic_def attempts_def Let_def)

lemma sync_success_step:
  "attempts now ns \<Longrightarrow>
   sync_live_positions_periodic True now Fetched ns
     = (ns\<lparr>last_pos_sync := now, NET_BACKOFF_UNTIL := 0, NET_BACKOFF_STEP := 60\<rparr>, True)"
  by (simp add: sync_live_positions_periodic_def attempts_def Let_def)

lemma capped_growth:
  fixes s :: real
  assumes "0 \<le> s"
  shows "min 300 (min 300 (s * (17 / 10)) * (17 / 10) ^ i) = min 300 (s * (17 / 10) ^ Suc i)"
proof (cases "s * (17 / 10) \<le> 300")
  case True
  then have "min 300 (s * (17 / 10)) = s * (17 / 10)" by (rule min_absorb2)
  then show ?thesis by (simp add: mult.assoc)
next
  case False
  define P :: real where "P = (17 / 10) ^ i"
  define q :: real where "q = s * (17 / 10)"
  have p1: "1 \<le> P" unfolding P_def by (rule one_le_power) simp
  have q: "300 < q" using False by (simp add: q_def)
  have l: "min 300 q = 300" using q by (intro min_absorb1) simp
  have a: "300 \<le> 300 * P" using p1 by simp
  have "q \<le> q * P" using p1 q by (simp add: mult_le_cancel_left1)
  then have c: "300 \<le> q * P" using q by linarith
  have e: "s * (17 / 10) ^ Suc i = q * P" by (simp add: P_def q_def)
  have "min 300 (300 * P) = 300" using a by (rule min_absorb1)
  moreover have "min 300 (q * P) = 300" using c by (rule min_absorb1)
  ultimately have "min 300 (min 300 q * P) = min 300 (q * P)" by (simp only: l)
  then show ?thesis by (simp only: e q_def [symmetric] P_def [symmetric])
qed

lemma failure_windows_closed_form:
  "all_attempted ts ns \<Longrightarrow> 0 \<le> NET_BACKOFF_STEP ns \<Longrightarrow> NET_BACKOFF_STEP ns \<le> 300 \<Longrightarrow>
   failure_windows ts ns = map (\<lambda>i. min 300 (NET_BACKOFF_STEP ns * (17 / 10) ^ i)) [0..<length ts]"
proof (induction ts arbitrary: ns)
  case Nil
  then show ?case by simp
next
  case (Cons now ts)
  let ?ns' = "fst (sync_live_positions_periodic True now RequestException ns)"
  have att: "attempts now ns" and rest: "all_attempted ts ?ns'"
    using Cons.prems(1) by simp_all
  have st: "NET_BACKOFF_STEP ?ns' = min 300 (NET_BACKOFF_STEP ns * (17 / 10))"
    and un: "NET_BACKOFF_UNTIL ?ns' = now + NET_BACKOFF_STEP ns"
    using att by (simp_all add: sync_failure_step NET_BACKOFF_MAX_def)
  have lo: "0 \<le> NET_BACKOFF_STEP ?ns'" using Cons.prems(2) by (simp add: st)
  have hi: "NET_BACKOFF_STEP ?ns' \<le> 300" by (simp add: st)
  have ih: "failure_windows ts ?ns'
      = map (\<lambda>i. min 300 (NET_BACKOFF_STEP ns * (17 / 10) ^ Suc i)) [0..<length ts]"
    using Cons.IH [OF rest lo hi] capped_growth [OF Cons.prems(2)] by (simp add: st)
  have hd: "NET_BACKOFF_UNTIL ?ns' - now = min 300 (NET_BACKOFF_STEP ns * (17 / 10) ^ 0)"
    using Cons.prems(3) by (simp add: un)
  have "failure_windows (now # ts) ns = (NET_BACKOFF_UNTIL ?ns' - now) # failure_windows ts ?ns'"
    by (simp add: Let_def)
  also have "\<dots> = map (\<lambda>i. min 300 (NET_BACKOFF_STEP ns * (17 / 10) ^ i)) (0 # map Suc [0..<length ts])"
    using hd ih by (simp add: comp_def)
  also have "0 # map Suc [0..<length ts] = [0..<length (now # ts)]"
    by (simp add: upt_conv_Cons map_Suc_upt del: upt_Suc)
  finally show ?case .
qed

lemma capped_powers_mono:
  assumes "i \<le> j"
  shows "min (300::real) (60 * (17 / 10) ^ i) \<le> min 300 (60 * (17 / 10) ^ j)"
proof -
  have "(17 / 10 :: real) ^ i \<le> (17 / 10) ^ j"
    using assms by (intro power_increasing) simp_all
  then have "(60::real) * (17 / 10) ^ i \<le> 60 * (17 / 10) ^ j" by simp
  then show ?thesis by (intro min.mono) simp_all
qed

lemma sorted_capped_powers:
  "sorted (map (\<lambda>i. min (300::real) (60 * (17 / 10) ^ i)) [0..<n])"
proof -
  have "sorted_wrt (\<lambda>i j. i \<le> j) [0..<n]" by simp
  then have "sorted_wrt (\<lambda>i j. min (300::real) (60 * (17 / 10) ^ i) \<le> min 300 (60 * (17 / 10) ^ j)) [0..<n]"
    by (rule sorted_wrt_mono_rel [rotated]) (rule capped_powers_mono)
  then show ?thesis by (simp only: sorted_map)
qed

lemma capped_powers_range:
  "60 \<le> min (300::real) (60 * (17 / 10) ^ i) \<and> min (300::real) (60 * (17 / 10) ^ i) \<le> 300"
proof -
  have "(1::real) \<le> (17 / 10) ^ i" by (rule one_le_power) simp
  then have "(60::real) \<le> 60 * (17 / 10) ^ i" by simp
  then have "(60::real) \<le> min 300 (60 * (17 / 10) ^ i)" by (intro min.boundedI) simp_all
  then show ?thesis by (simp only: min.cobounded1 simp_thms)
qed

lemma NET_BACKOFF_MAX_300: "NET_BACKOFF_MAX = 300"
  by (simp add: NET_BACKOFF_MAX_def)

text \<open>
  Claim C6. Consecutive transport failures, starting from the base step of 60 seconds,
  open the backoff windows 60, 60 * 1.7, 60 * 1.7^2, ... cut off at the maximum of five
  minutes: the windows never decrease and stay between 60 and 300 seconds. A successful
  request after any such run puts the step back to 60 and clears the backoff deadline.
\<close>

theorem backoff_windows:
  assumes "NET_BACKOFF_STEP ns = 60" and "all_attempted ts ns"
  shows "failure_windows ts ns = map (\<lambda>i. min NET_BACKOFF_MAX (60 * (17 / 10) ^ i)) [0..<length ts]
       \<and> sorted (failure_windows ts ns)
       \<and> (\<forall>w \<in> set (failure_windows ts ns). 60 \<le> w \<and> w \<le> NET_BACKOFF_MAX)
       \<and> (\<forall>now. attempts now (after_failures ts ns) \<longrightarrow>
             NET_BACKOFF_STEP (fst (sync_live_positions_periodic True now Fetched (after_failures ts ns))) = 60
           \<and> NET_BACKOFF_UNTIL (fst (sync_live_positions_periodic True now Fetched (after_failures ts ns))) = 0)"
proof -
  have b0: "0 \<le> NET_BACKOFF_STEP ns" and b1: "NET_BACKOFF_STEP ns \<le> 300"
    using assms(1) by simp_all
  have cf: "failure_windows ts ns = map (\<lambda>i. min 300 (60 * (17 / 10) ^ i)) [0..<length ts]"
    using failure_windows_closed_form [OF assms(2) b0 b1] by (simp only: assms(1))
  have s: "sorted (failure_windows ts ns)"
    by (simp only: cf sorted_capped_powers)
  have r: "\<forall>w \<in> set (failure_windows ts ns). 60 \<le> w \<and> w \<le> 300"
  proof
    fix w assume "w \<in> set (failure_windows ts ns)"
    then obtain i where "w = min 300 (60 * (17 / 10) ^ i)"
      unfolding cf by (auto simp only: set_map)
    then show "60 \<le> w \<and> w \<le> 300" by (simp only: capped_powers_range)
  qed
  have reset: "\<forall>now. attempts now (after_failures ts ns) \<longrightarrow>
             NET_BACKOFF_STEP (fst (sync_live_positions_periodic True now Fetched (after_failures ts ns))) = 60
           \<and> NET_BACKOFF_UNTIL (fst (sync_live_positions_periodic True now Fetched (after_failures ts ns))) = 0"
    by (simp add: sync_success_step)
  show ?thesis
    unfolding NET_BACKOFF_MAX_300 using cf s r reset by (intro conjI)
qed


lemma ex_attempted: "all_attempted [10, 100, 300, 500, 900] net_state_init"
  by (simp add: net_state_init_def attempts_def sync_failure_step
      POS_SYNC_SECONDS_def NET_BACKOFF_MAX_300)

lemma ex_after: "after_failures [10, 100, 300, 500, 900] net_state_init
   = \<lparr> NET_BACKOFF_UNTIL = 1200, NET_BACKOFF_STEP = 300, last_pos_sync = 900 \<rparr>"
  by (simp add: net_state_init_def attempts_def sync_failure_step
      POS_SYNC_SECONDS_def NET_BACKOFF_MAX_300)

theorem backoff_windows_witness:
  "failure_windows [10, 100, 300, 500, 900] net_state_init = [60, 102, 1734 / 10, 29478 / 100, 300]
   \<and> sorted (failure_windows [10, 100, 300, 500, 900] net_state_init)
   \<and> NET_BACKOFF_STEP (fst (sync_live_positions_periodic True 1300 Fetched
        (after_failures [10, 100, 300, 500, 900] net_state_init))) = 60
   \<and> NET_BACKOFF_UNTIL (fst (sync_live_positions_periodic True 1300 Fetched
        (after_failures [10, 100, 300, 500, 900] net_state_init))) = 0"
proof -
  have h1: "NET_BACKOFF_STEP net_state_init = 60" by (simp add: net_state_init_def)
  have h3: "attempts 1300 (after_failures [10, 100, 300, 500, 900] net_state_init)"
    unfolding ex_after by (simp add: attempts_def POS_SYNC_SECONDS_def)
  have up: "[0..<length [10, 100, 300, 500, 900::real]] = [0, 1, 2, 3, 4]"
    by (simp add: upt_conv_Cons)
  have ev: "map (\<lambda>i. min NET_BACKOFF_MAX (60 * (17 / 10) ^ i)) [0, 1, 2, 3, 4]
      = [60, 102, 1734 / 10, 29478 / 100, 300]"
    by (simp add: NET_BACKOFF_MAX_300 power_numeral_reduce power2_eq_square power3_eq_cube)
  note t = backoff_windows [OF h1 ex_attempted]
  have w: "failure_windows [10, 100, 300, 500, 900] net_state_init = [60, 102, 1734 / 10, 29478 / 100, 300]"
    using t by (simp only: up ev)
  show ?thesis using t h3 w by blast
qed


section \<open>Persistence: theorems\<close>

lemma truthy_float_idem: "truthy_float (truthy_float x) = truthy_float x"
  by (simp add: truthy_float_def split: option.splits)

lemma restore_after_persist:
  assumes "sim_state_file t = sim_state_file (persist_sim_state True now s)"
    and "\<not> SIM_STATE_DONE t"
  shows "restore_sim_state t =
     t\<lparr>ACCOUNT_SIM :=
          (ACCOUNT_SIM t)
            \<lparr>balance := balance (ACCOUNT_SIM s),
             daily_start_equity :=
               Some (float_or (daily_start_equity (ACCOUNT_SIM s)) (balance (ACCOUNT_SIM s))),
             daily_pnl := daily_pnl (ACCOUNT_SIM s),
             total_pnl := total_pnl (ACCOUNT_SIM s),
             trades := last500 (trades (ACCOUNT_SIM s))\<rparr>,
        SYMAP := restore_positions (snap_positions (snapshot_sim_state now s)) (SYMAP t),
        SIM_STATE_DONE := True\<rparr>"
  using assms by (simp add: restore_sim_state_def persist_sim_state_def snapshot_sim_state_def)

lemma view_restored:
  "sim_position_view (t\<lparr>ACCOUNT_SIM := a,
        SYMAP := restore_positions (snap_positions (snapshot_sim_state now s)) (SYMAP t),
        SIM_STATE_DONE := True\<rparr>) symb =
   (case sim_position_view s symb of
      None \<Rightarrow> sim_position_view t symb
    | Some (sd, q, e, sl, tp) \<Rightarrow> Some (sd, q, e, truthy_float sl, truthy_float tp))"
  by (auto simp: sim_position_view_def restore_positions_def snapshot_sim_state_def
      snap_of_position_def position_of_snap_def truthy_float_idem new_symbol_state_def
      split: option.splits)

text \<open>
  Claim C5, as the code has it. A forced persist of a state \<open>s\<close>, followed by a restore in
  a process \<open>t\<close> that holds the written file and has not restored yet, gives back the
  balance, daily result and total result of the simulated account and its most recent
  500 trades. The daily start equity comes back as the stored one when that is set and
  non-zero, and as the balance otherwise. Every open simulated position comes back with
  its side, quantity and entry, and with its stop and target unless they are zero, which
  come back as absent; symbols without a simulated position in \<open>s\<close> keep what \<open>t\<close> has.
\<close>

theorem persist_restore_roundtrip:
  assumes "sim_state_file t = sim_state_file (persist_sim_state True now s)"
    and "\<not> SIM_STATE_DONE t"
  shows "balance (ACCOUNT_SIM (restore_sim_state t)) = balance (ACCOUNT_SIM s)
       \<and> daily_pnl (ACCOUNT_SIM (restore_sim_state t)) = daily_pnl (ACCOUNT_SIM s)
       \<and> total_pnl (ACCOUNT_SIM (restore_sim_state t)) = total_pnl (ACCOUNT_SIM s)
       \<and> trades (ACCOUNT_SIM (restore_sim_state t)) = last500 (trades (ACCOUNT_SIM s))
       \<and> daily_start_equity (ACCOUNT_SIM (restore_sim_state t))
           = Some (float_or (daily_start_equity (ACCOUNT_SIM s)) (balance (ACCOUNT_SIM s)))
       \<and> (\<forall>d. daily_start_equity (ACCOUNT_SIM s) = Some d \<and> d \<noteq> 0
             \<longrightarrow> daily_start_equity (ACCOUNT_SIM (restore_sim_state t)) = Some d)
       \<and> (\<forall>symb sd q e sl tp. sim_position_view s symb = Some (sd, q, e, sl, tp)
             \<longrightarrow> sim_position_view (restore_sim_state t) symb
                   = Some (sd, q, e, truthy_float sl, truthy_float tp))
       \<and> (\<forall>symb sd q e sl tp. sim_position_view s symb = Some (sd, q, e, sl, tp)
               \<and> sl \<noteq> Some 0 \<and> tp \<noteq> Some 0
             \<longrightarrow> sim_position_view (restore_sim_state t) symb = sim_position_view s symb)
       \<and> (\<forall>symb. sim_position_view s symb = None
             \<longrightarrow> sim_position_view (restore_sim_state t) symb = sim_position_view t symb)"
proof -
  note r = restore_after_persist [OF assms]
  have acc: "balance (ACCOUNT_SIM (restore_sim_state t)) = balance (ACCOUNT_SIM s)
       \<and> daily_pnl (ACCOUNT_SIM (restore_sim_state t)) = daily_pnl (ACCOUNT_SIM s)
       \<and> total_pnl (ACCOUNT_SIM (restore_sim_state t)) = total_pnl (ACCOUNT_SIM s)
       \<and> trades (ACCOUNT_SIM (restore_sim_state t)) = last500 (trades (ACCOUNT_SIM s))
       \<and> daily_start_equity (ACCOUNT_SIM (restore_sim_state t))
           = Some (float_or (daily_start_equity (ACCOUNT_SIM s)) (balance (ACCOUNT_SIM s)))"
    by (simp add: r)
  have dse: "\<forall>d. daily_start_equity (ACCOUNT_SIM s) = Some d \<and> d \<noteq> 0
             \<longrightarrow> daily_start_equity (ACCOUNT_SIM (restore_sim_state t)) = Some d"
    by (simp add: r float_or_def)
  have v1: "\<forall>symb sd q e sl tp. sim_position_view s symb = Some (sd, q, e, sl, tp)
             \<longrightarrow> sim_position_view (restore_sim_state t) symb
                   = Some (sd, q, e, truthy_float sl, truthy_float tp)"
    by (simp add: r view_restored)
  have tf: "\<And>x. x \<noteq> Some (0::real) \<Longrightarrow> truthy_float x = x"
    by (simp add: truthy_float_def split: option.splits)
  have v2: "\<forall>symb sd q e sl tp. sim_position_view s symb = Some (sd, q, e, sl, tp)
               \<and> sl \<noteq> Some 0 \<and> tp \<noteq> Some 0
             \<longrightarrow> sim_position_view (restore_sim_state t) symb = sim_position_view s symb"
    by (simp add: r view_restored tf)
  have v3: "\<forall>symb. sim_position_view s symb = None
             \<longrightarrow> sim_position_view (restore_sim_state t) symb = sim_position_view t symb"
    by (simp add: r view_restored)
  show ?thesis using acc dse v1 v2 v3 by (intro conjI) blast+
qed

text \<open>
  Against claim C5 as it is worded: the account as it is right after start has no daily
  start equity; after persist and restore it has one, the balance.
\<close>

theorem persist_restore_counterexample:
  "daily_start_equity (ACCOUNT_SIM new_state) = None
   \<and> daily_start_equity (ACCOUNT_SIM (restore_sim_state (persist_sim_state True 0 new_state)))
       = Some 10000"
  by (simp add: new_state_def new_account_def restore_sim_state_def persist_sim_state_def
      snapshot_sim_state_def float_or_def)


theorem persist_restore_roundtrip_witness:
  "balance (ACCOUNT_SIM (restore_sim_state
       (new_state\<lparr>sim_state_file := sim_state_file (persist_sim_state True 1000 sample_state)\<rparr>))) = 10000
   \<and> daily_start_equity (ACCOUNT_SIM (restore_sim_state
       (new_state\<lparr>sim_state_file := sim_state_file (persist_sim_state True 1000 sample_state)\<rparr>))) = Some 10000
   \<and> sim_position_view (restore_sim_state
       (new_state\<lparr>sim_state_file := sim_state_file (persist_sim_state True 1000 sample_state)\<rparr>)) ''BTCUSDT''
       = Some (''LONG'', 1, 100, Some 98, Some 104)"
proof -
  let ?t = "new_state\<lparr>sim_state_file := sim_state_file (persist_sim_state True 1000 sample_state)\<rparr>"
  have h1: "sim_state_file ?t = sim_state_file (persist_sim_state True 1000 sample_state)"
    by simp
  have h2: "\<not> SIM_STATE_DONE ?t" by (simp add: new_state_def)
  have b: "balance (ACCOUNT_SIM sample_state) = 10000"
    by (simp add: sample_state_def new_account_def)
  have d: "daily_start_equity (ACCOUNT_SIM sample_state) = Some 10000 \<and> (10000::real) \<noteq> 0"
    by (simp add: sample_state_def)
  have v: "sim_position_view sample_state ''BTCUSDT'' = Some (''LONG'', 1, 100, Some 98, Some 104)
           \<and> Some 98 \<noteq> Some (0::real) \<and> Some 104 \<noteq> Some (0::real)"
    by (simp add: sim_position_view_def sample_state_def sample_position_def)
  note t = persist_restore_roundtrip [OF h1 h2]
  have c1: "balance (ACCOUNT_SIM (restore_sim_state ?t)) = 10000" using t b by simp
  have c2: "daily_start_equity (ACCOUNT_SIM (restore_sim_state ?t)) = Some 10000"
    using t d by blast
  have "sim_position_view (restore_sim_state ?t) ''BTCUSDT'' = sim_position_view sample_state ''BTCUSDT''"
    using t v by blast
  then have c3: "sim_position_view (restore_sim_state ?t) ''BTCUSDT'' = Some (''LONG'', 1, 100, Some 98, Some 104)"
    using v by simp
  show ?thesis using c1 c2 c3 by blast
qed

section \<open>Settlement: what each step leaves alone\<close>

lemma update_loss_streak_frame:
  "SYMAP (update_loss_streak cfg env symbol net s) = SYMAP s"
  "ACCOUNT_LIVE (update_loss_streak cfg env symbol net s) = ACCOUNT_LIVE s"
  "ACCOUNT_SIM (update_loss_streak cfg env symbol net s) = ACCOUNT_SIM s"
  "TRAINED_POS_UIDS (update_loss_streak cfg env symbol net s) = TRAINED_POS_UIDS s"
  "LAST_CLOSE_TS (update_loss_streak cfg env symbol net s) = LAST_CLOSE_TS s"
  "trades_csv (update_loss_streak cfg env symbol net s) = trades_csv s"
  "ml_mgr (update_loss_streak cfg env symbol net s) = ml_mgr s"
  by (simp_all add: update_loss_streak_def Let_def)

lemma persist_sim_state_frame:
  "SYMAP (persist_sim_state f now s) = SYMAP s"
  "ACCOUNT_LIVE (persist_sim_state f now s) = ACCOUNT_LIVE s"
  "ACCOUNT_SIM (persist_sim_state f now s) = ACCOUNT_SIM s"
  "TRAINED_POS_UIDS (persist_sim_state f now s) = TRAINED_POS_UIDS s"
  "LAST_CLOSE_TS (persist_sim_state f now s) = LAST_CLOSE_TS s"
  "trades_csv (persist_sim_state f now s) = trades_csv s"
  "ml_mgr (persist_sim_state f now s) = ml_mgr s"
  by (simp_all add: persist_sim_state_def)

lemma put_account_frame:
  "SYMAP (put_account which acc s) = SYMAP s"
  "TRAINED_POS_UIDS (put_account which acc s) = TRAINED_POS_UIDS s"
  "LAST_CLOSE_TS (put_account which acc s) = LAST_CLOSE_TS s"
  "trades_csv (put_account which acc s) = trades_csv s"
  "ml_mgr (put_account which acc s) = ml_mgr s"
  by (simp_all add: put_account_def)

lemma put_account_accounts:
  "ACCOUNT_LIVE (put_account which acc s) = (if upper which = ''LIVE'' then acc else ACCOUNT_LIVE s)"
  "ACCOUNT_SIM (put_account which acc s) = (if upper which = ''LIVE'' then ACCOUNT_SIM s else acc)"
  by (simp_all add: put_account_def)

lemma account_of_put_account: "account_of (put_account which acc s) which = acc"
  by (simp add: account_of_def get_account_def put_account_def)

lemma settle_SYMAP:
  "SYMAP (settle cfg env symbol reason px0 which sk st p u s0)
     = (SYMAP s0)(symbol \<mapsto> set_pos st which None)"
  by (simp add: settle_def Let_def update_loss_streak_frame persist_sim_state_frame
      put_account_frame split: option.splits)

lemma settle_LAST_CLOSE_TS:
  "LAST_CLOSE_TS (settle cfg env symbol reason px0 which sk st p u s0) = LAST_CLOSE_TS s0"
  by (simp add: settle_def Let_def update_loss_streak_frame persist_sim_state_frame
      put_account_frame split: option.splits)

lemma settle_TRAINED:
  "TRAINED_POS_UIDS (settle cfg env symbol reason px0 which sk st p u s0) = TRAINED_POS_UIDS s0"
  by (simp add: settle_def Let_def update_loss_streak_frame persist_sim_state_frame
      put_account_frame split: option.splits)

lemma settle_trades_csv:
  "trades_csv (settle cfg env symbol reason px0 which sk st p u s0)
     = (if LOG_TRADES_ON cfg
        then trades_csv s0 @ [(which, trade_row cfg env symbol reason (exit_price env which sk px0) which p u)]
        else trades_csv s0)"
  by (simp add: settle_def Let_def update_loss_streak_frame persist_sim_state_frame
      put_account_frame split: option.splits)

lemma settle_accounts:
  "ACCOUNT_LIVE (settle cfg env symbol reason px0 which sk st p u s0)
     = (if upper which = ''LIVE'' then settled_account cfg env symbol reason px0 which sk p u s0
        else ACCOUNT_LIVE s0)"
  "ACCOUNT_SIM (settle cfg env symbol reason px0 which sk st p u s0)
     = (if upper which = ''LIVE'' then ACCOUNT_SIM s0
        else settled_account cfg env symbol reason px0 which sk p u s0)"
  by (simp_all add: settle_def Let_def update_loss_streak_frame persist_sim_state_frame
      put_account_accounts settled_account_def split: option.splits)

lemma account_of_settle:
  "account_of (settle cfg env symbol reason px0 which sk st p u s0) which
     = settled_account cfg env symbol reason px0 which sk p u s0"
  by (simp add: account_of_def get_account_def settle_accounts)

section \<open>Close and settlement: theorems\<close>

lemma close_too_soon_cases:
  "close_too_soon which symbol m now s =
     (if now - (case LAST_CLOSE_TS s (upper which, upper symbol) of None \<Rightarrow> 0 | Some t \<Rightarrow> t) < m
      then (True, s)
      else (False, s\<lparr>LAST_CLOSE_TS := (LAST_CLOSE_TS s)((upper which, upper symbol) \<mapsto> now)\<rparr>))"
  by (simp add: close_too_soon_def Let_def)

lemma close_debounced:
  assumes "SYMAP s symbol = Some st"
    and "fst (close_too_soon which symbol 600 (utc_ms env) s)"
  shows "close_position_one cfg env symbol reason px which sk s = Inr s"
proof -
  have "snd (close_too_soon which symbol 600 (utc_ms env) s) = s"
    using assms(2) by (simp add: close_too_soon_cases split: if_splits)
  then show ?thesis using assms by (simp add: close_position_one_def Let_def)
qed

lemma not_soon_snd:
  "\<not> fst (close_too_soon which symbol 600 now s) \<Longrightarrow>
   snd (close_too_soon which symbol 600 now s) = stamped which symbol now s"
  by (simp add: close_too_soon_cases stamped_def split: if_splits)

lemma close_no_position:
  assumes "SYMAP s symbol = Some st" and "get_pos st which = None"
    and "\<not> fst (close_too_soon which symbol 600 (utc_ms env) s)"
  shows "close_position_one cfg env symbol reason px which sk s
           = Inr (stamped which symbol (utc_ms env) s)"
  using assms by (simp add: close_position_one_def Let_def not_soon_snd)

lemma stamped_fields:
  "SYMAP (stamped which symbol now s) = SYMAP s"
  "TRAINED_POS_UIDS (stamped which symbol now s) = TRAINED_POS_UIDS s"
  "ACCOUNT_LIVE (stamped which symbol now s) = ACCOUNT_LIVE s"
  "ACCOUNT_SIM (stamped which symbol now s) = ACCOUNT_SIM s"
  "trades_csv (stamped which symbol now s) = trades_csv s"
  "ml_mgr (stamped which symbol now s) = ml_mgr s"
  "LAST_CLOSE_TS (stamped which symbol now s) = (LAST_CLOSE_TS s)((upper which, upper symbol) \<mapsto> now)"
  by (simp_all add: stamped_def)

lemma close_cleanup:
  assumes "SYMAP s symbol = Some st" and "get_pos st which = Some pv"
    and "\<not> fst (close_too_soon which symbol 600 (utc_ms env) s)"
    and "uid_of_position which symbol pv \<in> TRAINED_POS_UIDS s"
    and "\<not> (0 < abs (p_qty pv) \<and> 0 < abs (p_entry pv))"
  shows "close_position_one cfg env symbol reason px which sk s
           = Inr ((stamped which symbol (utc_ms env) s)
                    \<lparr>SYMAP := (SYMAP s)(symbol \<mapsto> set_pos st which None)\<rparr>)"
  using assms by (auto simp: close_position_one_def Let_def not_soon_snd stamped_fields)

lemma close_settles:
  assumes "SYMAP s symbol = Some st" and "get_pos st which = Some pv"
    and "\<not> fst (close_too_soon which symbol 600 (utc_ms env) s)"
    and "uid_of_position which symbol pv \<in> TRAINED_POS_UIDS s
           \<longrightarrow> 0 < abs (p_qty pv) \<and> 0 < abs (p_entry pv)"
  shows "close_position_one cfg env symbol reason px which sk s
           = Inr (settle cfg env symbol reason px which sk st pv (booking_uid env which symbol pv s)
                    ((stamped which symbol (utc_ms env) s)
                       \<lparr>TRAINED_POS_UIDS := insert (booking_uid env which symbol pv s) (TRAINED_POS_UIDS s)\<rparr>))"
  using assms
  by (auto simp: close_position_one_def Let_def not_soon_snd stamped_fields booking_uid_def)

lemma settled_account_fields:
  "total_pnl (settled_account cfg env symbol reason px0 which sk p u s0)
     = total_pnl (account_of s0 which) + net_pnl cfg env which p (exit_price env which sk px0)"
  "balance (settled_account cfg env symbol reason px0 which sk p u s0)
     = (if upper which = ''SIM''
        then balance (account_of s0 which) + net_pnl cfg env which p (exit_price env which sk px0)
        else balance (account_of s0 which))"
  "daily_pnl (settled_account cfg env symbol reason px0 which sk p u s0)
     = (if upper which = ''SIM''
        then daily_pnl (account_of s0 which) + net_pnl cfg env which p (exit_price env which sk px0)
        else daily_pnl (account_of s0 which))"
  "trades (settled_account cfg env symbol reason px0 which sk p u s0)
     = trades (account_of s0 which) @ [trade_row cfg env symbol reason (exit_price env which sk px0) which p u]"
  by (simp_all add: settled_account_def book_pnl_def Let_def)

lemma account_of_fields:
  "account_of (s\<lparr>TRAINED_POS_UIDS := U\<rparr>) which = account_of s which"
  "account_of (stamped w symbol now s) which = account_of s which"
  by (simp_all add: account_of_def stamped_def)

lemma triggers_debounced:
  assumes "SYMAP s1 symbol = Some st1"
    and "LAST_CLOSE_TS s1 (upper which, upper symbol) = Some t0"
    and "\<forall>c \<in> set cs. utc_ms (fst c) - t0 < 600"
  shows "close_triggers cfg symbol which cs s1 = Inr s1"
  using assms(3)
proof (induction cs)
  case Nil
  then show ?case by simp
next
  case (Cons c cs)
  obtain env reason px sk where c: "c = (env, reason, px, sk)" by (cases c) auto
  have "utc_ms env - t0 < 600" using Cons.prems c by simp
  then have "fst (close_too_soon which symbol 600 (utc_ms env) s1)"
    using assms(2) by (simp add: close_too_soon_cases)
  then have "close_position_one cfg env symbol reason px which sk s1 = Inr s1"
    using assms(1) by (rule close_debounced [rotated])
  then show ?case using Cons c by simp
qed

text \<open>
  Claim C8, as the code has it. Closing a tracked symbol that has no open position for
  the account returns without touching any position, account, ledger, dedup set or
  model state: the state is the same except for the debounce stamp, which is left alone
  when the call falls inside the debounce window and set to the time of the call
  otherwise.
\<close>

theorem close_without_position:
  assumes "SYMAP s symbol = Some st" and "get_pos st which = None"
  shows "\<exists>s'. close_position_one cfg env symbol reason px which sk s = Inr s'
           \<and> s' = s\<lparr>LAST_CLOSE_TS := LAST_CLOSE_TS s'\<rparr>
           \<and> (fst (close_too_soon which symbol 600 (utc_ms env) s) \<longrightarrow> s' = s)
           \<and> (\<not> fst (close_too_soon which symbol 600 (utc_ms env) s) \<longrightarrow>
                LAST_CLOSE_TS s' = (LAST_CLOSE_TS s)((upper which, upper symbol) \<mapsto> utc_ms env))"
proof (cases "fst (close_too_soon which symbol 600 (utc_ms env) s)")
  case True
  then have "close_position_one cfg env symbol reason px which sk s = Inr s"
    using assms(1) by (rule close_debounced [rotated])
  then show ?thesis using True by simp
next
  case False
  then have "close_position_one cfg env symbol reason px which sk s
               = Inr (stamped which symbol (utc_ms env) s)"
    using assms by (intro close_no_position)
  then show ?thesis using False by (simp add: stamped_def)
qed

text \<open>
  The two branches behind a dedup hit. A close that passes the debounce and finds a
  position whose id is already in the dedup set clears the position and nothing else
  when quantity or entry is zero; with both non-zero it books the position under a new
  time-stamped id and runs the whole settlement.
\<close>

lemma dedup_branches:
  assumes "SYMAP s symbol = Some st" and "get_pos st which = Some pv"
    and "\<not> fst (close_too_soon which symbol 600 (utc_ms env) s)"
    and "uid_of_position which symbol pv \<in> TRAINED_POS_UIDS s"
  shows "(\<not> (0 < abs (p_qty pv) \<and> 0 < abs (p_entry pv)) \<longrightarrow>
            (\<exists>s'. close_position_one cfg env symbol reason px which sk s = Inr s'
               \<and> s' = s\<lparr>LAST_CLOSE_TS := (LAST_CLOSE_TS s)((upper which, upper symbol) \<mapsto> utc_ms env),
                        SYMAP := (SYMAP s)(symbol \<mapsto> set_pos st which None)\<rparr>
               \<and> ACCOUNT_LIVE s' = ACCOUNT_LIVE s \<and> ACCOUNT_SIM s' = ACCOUNT_SIM s
               \<and> trades_csv s' = trades_csv s \<and> ml_mgr s' = ml_mgr s
               \<and> TRAINED_POS_UIDS s' = TRAINED_POS_UIDS s))
       \<and> (0 < abs (p_qty pv) \<and> 0 < abs (p_entry pv) \<longrightarrow>
            (\<exists>s'. close_position_one cfg env symbol reason px which sk s = Inr s'
               \<and> trades (account_of s' which)
                   = trades (account_of s which)
                     @ [trade_row cfg env symbol reason (exit_price env which sk px) which pv
                          (Retimed which symbol (p_entry pv) (p_qty pv) (utc_ms_uid env))]
               \<and> total_pnl (account_of s' which)
                   = total_pnl (account_of s which)
                     + net_pnl cfg env which pv (exit_price env which sk px)
               \<and> TRAINED_POS_UIDS s'
                   = insert (Retimed which symbol (p_entry pv) (p_qty pv) (utc_ms_uid env))
                       (TRAINED_POS_UIDS s)
               \<and> SYMAP s' symbol = Some (set_pos st which None)))"
proof (intro conjI impI)
  assume z: "\<not> (0 < abs (p_qty pv) \<and> 0 < abs (p_entry pv))"
  have "close_position_one cfg env symbol reason px which sk s
           = Inr ((stamped which symbol (utc_ms env) s)
                    \<lparr>SYMAP := (SYMAP s)(symbol \<mapsto> set_pos st which None)\<rparr>)"
    using assms z by (intro close_cleanup)
  then show "\<exists>s'. close_position_one cfg env symbol reason px which sk s = Inr s'
               \<and> s' = s\<lparr>LAST_CLOSE_TS := (LAST_CLOSE_TS s)((upper which, upper symbol) \<mapsto> utc_ms env),
                        SYMAP := (SYMAP s)(symbol \<mapsto> set_pos st which None)\<rparr>
               \<and> ACCOUNT_LIVE s' = ACCOUNT_LIVE s \<and> ACCOUNT_SIM s' = ACCOUNT_SIM s
               \<and> trades_csv s' = trades_csv s \<and> ml_mgr s' = ml_mgr s
               \<and> TRAINED_POS_UIDS s' = TRAINED_POS_UIDS s"
    by (simp add: stamped_def)
next
  assume nz: "0 < abs (p_qty pv) \<and> 0 < abs (p_entry pv)"
  let ?u = "Retimed which symbol (p_entry pv) (p_qty pv) (utc_ms_uid env)"
  have bu: "booking_uid env which symbol pv s = ?u"
    using assms(4) by (simp add: booking_uid_def)
  have "close_position_one cfg env symbol reason px which sk s
           = Inr (settle cfg env symbol reason px which sk st pv ?u
                    ((stamped which symbol (utc_ms env) s)
                       \<lparr>TRAINED_POS_UIDS := insert ?u (TRAINED_POS_UIDS s)\<rparr>))"
    using close_settles [OF assms(1,2,3)] nz by (simp add: bu)
  then show "\<exists>s'. close_position_one cfg env symbol reason px which sk s = Inr s'
               \<and> trades (account_of s' which)
                   = trades (account_of s which)
                     @ [trade_row cfg env symbol reason (exit_price env which sk px) which pv ?u]
               \<and> total_pnl (account_of s' which)
                   = total_pnl (account_of s which)
                     + net_pnl cfg env which pv (exit_price env which sk px)
               \<and> TRAINED_POS_UIDS s' = insert ?u (TRAINED_POS_UIDS s)
               \<and> SYMAP s' symbol = Some (set_pos st which None)"
    by (simp add: account_of_settle settled_account_fields account_of_fields settle_TRAINED
        settle_SYMAP)
qed

lemma pre_settle_fields:
  "LAST_CLOSE_TS ((stamped which symbol now s)\<lparr>TRAINED_POS_UIDS := U\<rparr>)
     = (LAST_CLOSE_TS s)((upper which, upper symbol) \<mapsto> now)"
  "SYMAP ((stamped which symbol now s)\<lparr>TRAINED_POS_UIDS := U\<rparr>) = SYMAP s"
  "ACCOUNT_LIVE ((stamped which symbol now s)\<lparr>TRAINED_POS_UIDS := U\<rparr>) = ACCOUNT_LIVE s"
  "ACCOUNT_SIM ((stamped which symbol now s)\<lparr>TRAINED_POS_UIDS := U\<rparr>) = ACCOUNT_SIM s"
  "trades_csv ((stamped which symbol now s)\<lparr>TRAINED_POS_UIDS := U\<rparr>) = trades_csv s"
  by (simp_all add: stamped_def)

text \<open>
  Claim C7. A close that reaches the settlement adds the net result to the total
  result of the account it settles. Balance and daily result of the simulated account
  move by the net result exactly when the account name is SIM; balance and daily result
  of the live account are never changed.
\<close>

theorem ledger_update_frame:
  assumes "SYMAP s symbol = Some st" and "get_pos st which = Some pv"
    and "\<not> fst (close_too_soon which symbol 600 (utc_ms env) s)"
    and "uid_of_position which symbol pv \<in> TRAINED_POS_UIDS s
           \<longrightarrow> 0 < abs (p_qty pv) \<and> 0 < abs (p_entry pv)"
  shows "\<exists>s'. close_position_one cfg env symbol reason px which sk s = Inr s'
           \<and> total_pnl (account_of s' which)
               = total_pnl (account_of s which) + net_pnl cfg env which pv (exit_price env which sk px)
           \<and> (upper which = ''SIM'' \<longrightarrow>
                 balance (ACCOUNT_SIM s')
                   = balance (ACCOUNT_SIM s) + net_pnl cfg env which pv (exit_price env which sk px)
               \<and> daily_pnl (ACCOUNT_SIM s')
                   = daily_pnl (ACCOUNT_SIM s) + net_pnl cfg env which pv (exit_price env which sk px))
           \<and> (upper which \<noteq> ''SIM'' \<longrightarrow>
                 balance (ACCOUNT_SIM s') = balance (ACCOUNT_SIM s)
               \<and> daily_pnl (ACCOUNT_SIM s') = daily_pnl (ACCOUNT_SIM s))
           \<and> balance (ACCOUNT_LIVE s') = balance (ACCOUNT_LIVE s)
           \<and> daily_pnl (ACCOUNT_LIVE s') = daily_pnl (ACCOUNT_LIVE s)
           \<and> (upper which = ''LIVE'' \<longrightarrow>
                 total_pnl (ACCOUNT_LIVE s')
                   = total_pnl (ACCOUNT_LIVE s) + net_pnl cfg env which pv (exit_price env which sk px))"
proof -
  let ?u = "booking_uid env which symbol pv s"
  let ?s0 = "(stamped which symbol (utc_ms env) s)\<lparr>TRAINED_POS_UIDS := insert ?u (TRAINED_POS_UIDS s)\<rparr>"
  let ?s' = "settle cfg env symbol reason px which sk st pv ?u ?s0"
  let ?net = "net_pnl cfg env which pv (exit_price env which sk px)"
  have c: "close_position_one cfg env symbol reason px which sk s = Inr ?s'"
    using assms by (rule close_settles)
  have a0: "account_of ?s0 which = account_of s which"
    by (simp add: account_of_fields)
  have t: "total_pnl (account_of ?s' which) = total_pnl (account_of s which) + ?net"
    by (simp add: account_of_settle settled_account_fields a0)
  have sim1: "upper which = ''SIM'' \<longrightarrow>
                 balance (ACCOUNT_SIM ?s') = balance (ACCOUNT_SIM s) + ?net
               \<and> daily_pnl (ACCOUNT_SIM ?s') = daily_pnl (ACCOUNT_SIM s) + ?net"
    by (simp add: settle_accounts settled_account_fields a0 account_of_def get_account_def
        pre_settle_fields)
  have sim2: "upper which \<noteq> ''SIM'' \<longrightarrow>
                 balance (ACCOUNT_SIM ?s') = balance (ACCOUNT_SIM s)
               \<and> daily_pnl (ACCOUNT_SIM ?s') = daily_pnl (ACCOUNT_SIM s)"
    by (simp add: settle_accounts settled_account_fields a0 account_of_def get_account_def
        pre_settle_fields)
  have live: "balance (ACCOUNT_LIVE ?s') = balance (ACCOUNT_LIVE s)
           \<and> daily_pnl (ACCOUNT_LIVE ?s') = daily_pnl (ACCOUNT_LIVE s)"
    by (simp add: settle_accounts settled_account_fields a0 account_of_def get_account_def
        pre_settle_fields)
  have live2: "upper which = ''LIVE'' \<longrightarrow> total_pnl (ACCOUNT_LIVE ?s') = total_pnl (ACCOUNT_LIVE s) + ?net"
    by (simp add: settle_accounts settled_account_fields a0 account_of_def get_account_def
        pre_settle_fields)
  show ?thesis using c t sim1 sim2 live live2 by blast
qed

text \<open>
  Claim C2. A close that passes the debounce and the dedup check on an open position
  appends exactly one trade to the account and one row to the ledger file (when logging
  is on), and stamps the account and symbol with its time. Every further trigger for
  the same account and symbol that comes less than 600 ms after that time returns with
  the state unchanged: from the state the settlement leaves, and from any other state
  that carries the stamp, also one in which the position is still or again open.
\<close>

theorem single_record_under_debounce:
  assumes "SYMAP s symbol = Some st" and "get_pos st which = Some pv"
    and "\<not> fst (close_too_soon which symbol 600 (utc_ms env) s)"
    and "uid_of_position which symbol pv \<in> TRAINED_POS_UIDS s
           \<longrightarrow> 0 < abs (p_qty pv) \<and> 0 < abs (p_entry pv)"
    and "\<forall>c \<in> set cs. utc_ms (fst c) - utc_ms env < 600"
  shows "\<exists>s1. close_position_one cfg env symbol reason px which sk s = Inr s1
           \<and> trades (account_of s1 which)
               = trades (account_of s which)
                 @ [trade_row cfg env symbol reason (exit_price env which sk px) which pv
                      (booking_uid env which symbol pv s)]
           \<and> length (trades (ACCOUNT_LIVE s1)) + length (trades (ACCOUNT_SIM s1))
               = length (trades (ACCOUNT_LIVE s)) + length (trades (ACCOUNT_SIM s)) + 1
           \<and> trades_csv s1
               = (if LOG_TRADES_ON cfg
                  then trades_csv s
                       @ [(which, trade_row cfg env symbol reason (exit_price env which sk px) which pv
                                    (booking_uid env which symbol pv s))]
                  else trades_csv s)
           \<and> close_triggers cfg symbol which cs s1 = Inr s1
           \<and> LAST_CLOSE_TS s1 (upper which, upper symbol) = Some (utc_ms env)
           \<and> (\<forall>s2. symbol \<in> dom (SYMAP s2)
                  \<and> LAST_CLOSE_TS s2 (upper which, upper symbol) = LAST_CLOSE_TS s1 (upper which, upper symbol)
                \<longrightarrow> close_triggers cfg symbol which cs s2 = Inr s2)"
proof -
  let ?u = "booking_uid env which symbol pv s"
  let ?s0 = "(stamped which symbol (utc_ms env) s)\<lparr>TRAINED_POS_UIDS := insert ?u (TRAINED_POS_UIDS s)\<rparr>"
  let ?s1 = "settle cfg env symbol reason px which sk st pv ?u ?s0"
  have c: "close_position_one cfg env symbol reason px which sk s = Inr ?s1"
    using assms(1,2,3,4) by (rule close_settles)
  have a0: "account_of ?s0 which = account_of s which"
    by (simp add: account_of_fields)
  have t: "trades (account_of ?s1 which)
             = trades (account_of s which)
               @ [trade_row cfg env symbol reason (exit_price env which sk px) which pv ?u]"
    by (simp add: account_of_settle settled_account_fields a0)
  have n: "length (trades (ACCOUNT_LIVE ?s1)) + length (trades (ACCOUNT_SIM ?s1))
             = length (trades (ACCOUNT_LIVE s)) + length (trades (ACCOUNT_SIM s)) + 1"
    by (simp add: settle_accounts settled_account_fields a0 account_of_def get_account_def
        pre_settle_fields)
  have v: "trades_csv ?s1
             = (if LOG_TRADES_ON cfg
                then trades_csv s @ [(which, trade_row cfg env symbol reason (exit_price env which sk px) which pv ?u)]
                else trades_csv s)"
    by (simp add: settle_trades_csv pre_settle_fields)
  have m: "SYMAP ?s1 symbol = Some (set_pos st which None)"
    by (simp add: settle_SYMAP)
  have l: "LAST_CLOSE_TS ?s1 (upper which, upper symbol) = Some (utc_ms env)"
    by (simp add: settle_LAST_CLOSE_TS pre_settle_fields)
  have r: "close_triggers cfg symbol which cs ?s1 = Inr ?s1"
    using m l assms(5) by (rule triggers_debounced)
  have g: "\<forall>s2. symbol \<in> dom (SYMAP s2)
                  \<and> LAST_CLOSE_TS s2 (upper which, upper symbol) = LAST_CLOSE_TS ?s1 (upper which, upper symbol)
                \<longrightarrow> close_triggers cfg symbol which cs s2 = Inr s2"
  proof (intro allI impI)
    fix s2 :: state
    assume h: "symbol \<in> dom (SYMAP s2)
                  \<and> LAST_CLOSE_TS s2 (upper which, upper symbol) = LAST_CLOSE_TS ?s1 (upper which, upper symbol)"
    then obtain st2 where m2: "SYMAP s2 symbol = Some st2" by blast
    have l2: "LAST_CLOSE_TS s2 (upper which, upper symbol) = Some (utc_ms env)"
      using h l by simp
    show "close_triggers cfg symbol which cs s2 = Inr s2"
      using m2 l2 assms(5) by (rule triggers_debounced)
  qed
  show ?thesis using c t n v r l g by blast
qed


section \<open>Close and settlement: sample runs\<close>

lemma sample_SYMAP:
  "SYMAP sample_state ''BTCUSDT''
     = Some ((new_symbol_state ''BTCUSDT'')\<lparr>position_sim := Some sample_position\<rparr>)"
  "SYMAP sample_live_state ''BTCUSDT''
     = Some ((new_symbol_state ''BTCUSDT'')\<lparr>position_live := Some sample_position\<rparr>)"
  by (simp_all add: sample_state_def sample_live_state_def)

lemma sample_get_pos:
  "get_pos ((new_symbol_state ''BTCUSDT'')\<lparr>position_sim := Some p\<rparr>) ''SIM'' = Some p"
  "get_pos ((new_symbol_state ''BTCUSDT'')\<lparr>position_sim := Some p\<rparr>) ''LIVE'' = None"
  "get_pos ((new_symbol_state ''BTCUSDT'')\<lparr>position_live := Some p\<rparr>) ''LIVE'' = Some p"
  by (simp_all add: get_pos_def upper_SIM upper_LIVE new_symbol_state_def)

lemma sample_LAST_CLOSE_TS:
  "LAST_CLOSE_TS sample_state = Map.empty"
  "LAST_CLOSE_TS sample_live_state = Map.empty"
  by (simp_all add: sample_state_def sample_live_state_def
      new_state_def)

lemma sample_not_soon:
  "LAST_CLOSE_TS s = Map.empty \<Longrightarrow> \<not> fst (close_too_soon which symbol 600 (utc_ms sample_env) s)"
  by (simp add: close_too_soon_cases sample_env_def)



lemma sample_net:
  "net_pnl default_config sample_env ''SIM'' sample_position (exit_price sample_env ''SIM'' False 104) = 98 / 25"
  "net_pnl default_config sample_env ''LIVE'' sample_position (exit_price sample_env ''LIVE'' True 104) = 4"
  by (simp_all add: net_pnl_def gross_pnl_def fee_usdt_def exit_price_def upper_SIM upper_LIVE
      default_config_def sample_position_def sample_env_def)

lemma sample_accounts:
  "ACCOUNT_SIM sample_state = new_account\<lparr>daily_start_equity := Some 10000\<rparr>"
  "ACCOUNT_LIVE sample_state = new_account"
  "ACCOUNT_LIVE sample_live_state = new_account"
  "ACCOUNT_SIM sample_live_state = new_account"
  by (simp_all add: sample_state_def sample_live_state_def
      new_state_def)

lemma account_of_SIM: "account_of s ''SIM'' = ACCOUNT_SIM s"
  by (simp add: account_of_def get_account_def upper_SIM)

lemma account_of_LIVE: "account_of s ''LIVE'' = ACCOUNT_LIVE s"
  by (simp add: account_of_def get_account_def upper_LIVE)

theorem close_without_position_witness:
  "close_position_one default_config sample_env ''BTCUSDT'' ''manual'' 100 ''LIVE'' False sample_state
     = Inr (sample_state\<lparr>LAST_CLOSE_TS := [(''LIVE'', ''BTCUSDT'') \<mapsto> 1000000]\<rparr>)"
proof -
  have ns: "\<not> fst (close_too_soon ''LIVE'' ''BTCUSDT'' 600 (utc_ms sample_env) sample_state)"
    by (rule sample_not_soon) (rule sample_LAST_CLOSE_TS)
  from close_without_position [OF sample_SYMAP(1) sample_get_pos(2),
      of default_config sample_env "''manual''" 100 False]
  obtain s' where c: "close_position_one default_config sample_env ''BTCUSDT'' ''manual'' 100 ''LIVE'' False sample_state = Inr s'"
    and e: "s' = sample_state\<lparr>LAST_CLOSE_TS := LAST_CLOSE_TS s'\<rparr>"
    and l: "\<not> fst (close_too_soon ''LIVE'' ''BTCUSDT'' 600 (utc_ms sample_env) sample_state) \<longrightarrow>
             LAST_CLOSE_TS s' = (LAST_CLOSE_TS sample_state)((upper ''LIVE'', upper ''BTCUSDT'') \<mapsto> utc_ms sample_env)"
    by blast
  have "LAST_CLOSE_TS s' = [(''LIVE'', ''BTCUSDT'') \<mapsto> 1000000]"
    using l ns by (simp add: sample_LAST_CLOSE_TS upper_LIVE upper_BTCUSDT sample_env_def)
  then have "s' = sample_state\<lparr>LAST_CLOSE_TS := [(''LIVE'', ''BTCUSDT'') \<mapsto> 1000000]\<rparr>"
    using e by simp
  then show ?thesis using c by simp
qed

text \<open>
  Against claim C8 as it is worded: a close of the live account on a symbol that has no
  live position leaves a debounce stamp for that account and symbol where there was
  none.
\<close>

theorem close_without_position_counterexample:
  "LAST_CLOSE_TS sample_state (''LIVE'', ''BTCUSDT'') = None
   \<and> \<not> isl (close_position_one default_config sample_env ''BTCUSDT'' ''manual'' 100 ''LIVE'' False sample_state)
   \<and> LAST_CLOSE_TS (projr (close_position_one default_config sample_env ''BTCUSDT'' ''manual'' 100 ''LIVE'' False
          sample_state)) (''LIVE'', ''BTCUSDT'') = Some 1000000"
proof -
  have ns: "\<not> fst (close_too_soon ''LIVE'' ''BTCUSDT'' 600 (utc_ms sample_env) sample_state)"
    by (rule sample_not_soon) (rule sample_LAST_CLOSE_TS)
  have "close_position_one default_config sample_env ''BTCUSDT'' ''manual'' 100 ''LIVE'' False sample_state
          = Inr (stamped ''LIVE'' ''BTCUSDT'' (utc_ms sample_env) sample_state)"
    using sample_SYMAP(1) sample_get_pos(2) ns by (rule close_no_position)
  then show ?thesis
    by (simp add: stamped_fields sample_LAST_CLOSE_TS upper_LIVE upper_BTCUSDT sample_env_def)
qed

lemma sample_nonzero:
  "0 < abs (p_qty sample_position) \<and> 0 < abs (p_entry sample_position)"
  by (simp add: sample_position_def)

theorem ledger_update_frame_witness:
  "\<not> isl (close_position_one default_config sample_env ''BTCUSDT'' ''TP hit'' 104 ''SIM'' False sample_state)
   \<and> total_pnl (ACCOUNT_SIM (projr (close_position_one default_config sample_env ''BTCUSDT'' ''TP hit'' 104
        ''SIM'' False sample_state))) = 98 / 25
   \<and> balance (ACCOUNT_SIM (projr (close_position_one default_config sample_env ''BTCUSDT'' ''TP hit'' 104
        ''SIM'' False sample_state))) = 10000 + 98 / 25
   \<and> daily_pnl (ACCOUNT_SIM (projr (close_position_one default_config sample_env ''BTCUSDT'' ''TP hit'' 104
        ''SIM'' False sample_state))) = 98 / 25
   \<and> \<not> isl (close_position_one default_config sample_env ''BTCUSDT'' ''Exchange TP/SL filled'' 104 ''LIVE'' True
        sample_live_state)
   \<and> total_pnl (ACCOUNT_LIVE (projr (close_position_one default_config sample_env ''BTCUSDT''
        ''Exchange TP/SL filled'' 104 ''LIVE'' True sample_live_state))) = 4
   \<and> balance (ACCOUNT_LIVE (projr (close_position_one default_config sample_env ''BTCUSDT''
        ''Exchange TP/SL filled'' 104 ''LIVE'' True sample_live_state))) = 10000
   \<and> daily_pnl (ACCOUNT_LIVE (projr (close_position_one default_config sample_env ''BTCUSDT''
        ''Exchange TP/SL filled'' 104 ''LIVE'' True sample_live_state))) = 0"
proof -
  have ns1: "\<not> fst (close_too_soon ''SIM'' ''BTCUSDT'' 600 (utc_ms sample_env) sample_state)"
    by (rule sample_not_soon) (rule sample_LAST_CLOSE_TS)
  have ns2: "\<not> fst (close_too_soon ''LIVE'' ''BTCUSDT'' 600 (utc_ms sample_env) sample_live_state)"
    by (rule sample_not_soon) (rule sample_LAST_CLOSE_TS)
  have p1: "uid_of_position ''SIM'' ''BTCUSDT'' sample_position \<in> TRAINED_POS_UIDS sample_state
           \<longrightarrow> 0 < abs (p_qty sample_position) \<and> 0 < abs (p_entry sample_position)"
    using sample_nonzero(1) by simp
  have p2: "uid_of_position ''LIVE'' ''BTCUSDT'' sample_position \<in> TRAINED_POS_UIDS sample_live_state
           \<longrightarrow> 0 < abs (p_qty sample_position) \<and> 0 < abs (p_entry sample_position)"
    using sample_nonzero(1) by simp
  from ledger_update_frame [OF sample_SYMAP(1) sample_get_pos(1) ns1 p1,
      of default_config "''TP hit''" 104 False]
  obtain s' where a1: "close_position_one default_config sample_env ''BTCUSDT'' ''TP hit'' 104 ''SIM'' False sample_state = Inr s'"
    and a2: "total_pnl (account_of s' ''SIM'')
               = total_pnl (account_of sample_state ''SIM'')
                 + net_pnl default_config sample_env ''SIM'' sample_position (exit_price sample_env ''SIM'' False 104)"
    and a3: "upper ''SIM'' = ''SIM'' \<longrightarrow>
                 balance (ACCOUNT_SIM s')
                   = balance (ACCOUNT_SIM sample_state)
                     + net_pnl default_config sample_env ''SIM'' sample_position (exit_price sample_env ''SIM'' False 104)
               \<and> daily_pnl (ACCOUNT_SIM s')
                   = daily_pnl (ACCOUNT_SIM sample_state)
                     + net_pnl default_config sample_env ''SIM'' sample_position (exit_price sample_env ''SIM'' False 104)"
    by blast
  from ledger_update_frame [OF sample_SYMAP(2) sample_get_pos(3) ns2 p2,
      of default_config "''Exchange TP/SL filled''" 104 True]
  obtain s'' where b1: "close_position_one default_config sample_env ''BTCUSDT'' ''Exchange TP/SL filled'' 104 ''LIVE'' True sample_live_state = Inr s''"
    and b2: "total_pnl (account_of s'' ''LIVE'')
               = total_pnl (account_of sample_live_state ''LIVE'')
                 + net_pnl default_config sample_env ''LIVE'' sample_position (exit_price sample_env ''LIVE'' True 104)"
    and b3: "balance (ACCOUNT_LIVE s'') = balance (ACCOUNT_LIVE sample_live_state)"
    and b4: "daily_pnl (ACCOUNT_LIVE s'') = daily_pnl (ACCOUNT_LIVE sample_live_state)"
    by blast
  have c1: "total_pnl (ACCOUNT_SIM s') = 98 / 25"
    using a2 by (simp add: account_of_SIM sample_accounts new_account_def sample_net)
  have c2: "balance (ACCOUNT_SIM s') = 10000 + 98 / 25 \<and> daily_pnl (ACCOUNT_SIM s') = 98 / 25"
    using a3 by (simp add: upper_SIM sample_accounts new_account_def sample_net)
  have d1: "total_pnl (ACCOUNT_LIVE s'') = 4"
    using b2 by (simp add: account_of_LIVE sample_accounts new_account_def sample_net)
  have d2: "balance (ACCOUNT_LIVE s'') = 10000 \<and> daily_pnl (ACCOUNT_LIVE s'') = 0"
    using b3 b4 by (simp add: sample_accounts new_account_def)
  show ?thesis using c1 c2 d1 d2 by (simp add: a1 b1)
qed

theorem single_record_under_debounce_witness:
  "\<not> isl (close_position_one default_config sample_env ''BTCUSDT'' ''TP hit'' 104 ''SIM'' False sample_state)
   \<and> length (trades (ACCOUNT_SIM (projr (close_position_one default_config sample_env ''BTCUSDT'' ''TP hit'' 104
        ''SIM'' False sample_state)))) = 1
   \<and> length (trades_csv (projr (close_position_one default_config sample_env ''BTCUSDT'' ''TP hit'' 104
        ''SIM'' False sample_state))) = 1
   \<and> close_triggers default_config ''BTCUSDT'' ''SIM''
        [(sample_env\<lparr>utc_ms := 1000100\<rparr>, ''SL hit'', 98, False),
         (sample_env\<lparr>utc_ms := 1000599\<rparr>, ''AI exit'', 99, False)]
        (projr (close_position_one default_config sample_env ''BTCUSDT'' ''TP hit'' 104 ''SIM'' False sample_state))
       = close_position_one default_config sample_env ''BTCUSDT'' ''TP hit'' 104 ''SIM'' False sample_state
   \<and> close_triggers default_config ''BTCUSDT'' ''SIM''
        [(sample_env\<lparr>utc_ms := 1000100\<rparr>, ''SL hit'', 98, False),
         (sample_env\<lparr>utc_ms := 1000599\<rparr>, ''AI exit'', 99, False)]
        ((projr (close_position_one default_config sample_env ''BTCUSDT'' ''TP hit'' 104 ''SIM'' False sample_state))
           \<lparr>SYMAP := SYMAP sample_state\<rparr>)
       = Inr ((projr (close_position_one default_config sample_env ''BTCUSDT'' ''TP hit'' 104 ''SIM'' False
                 sample_state))\<lparr>SYMAP := SYMAP sample_state\<rparr>)
   \<and> sim_position_view sample_state ''BTCUSDT'' = Some (''LONG'', 1, 100, Some 98, Some 104)"
proof -
  let ?cs = "[(sample_env\<lparr>utc_ms := 1000100\<rparr>, ''SL hit'', 98::real, False),
             (sample_env\<lparr>utc_ms := 1000599\<rparr>, ''AI exit'', 99, False)]"
  have ns1: "\<not> fst (close_too_soon ''SIM'' ''BTCUSDT'' 600 (utc_ms sample_env) sample_state)"
    by (rule sample_not_soon) (rule sample_LAST_CLOSE_TS)
  have p1: "uid_of_position ''SIM'' ''BTCUSDT'' sample_position \<in> TRAINED_POS_UIDS sample_state
           \<longrightarrow> 0 < abs (p_qty sample_position) \<and> 0 < abs (p_entry sample_position)"
    using sample_nonzero(1) by simp
  have w: "\<forall>c \<in> set ?cs. utc_ms (fst c) - utc_ms sample_env < 600"
    by (simp add: sample_env_def)
  from single_record_under_debounce [OF sample_SYMAP(1) sample_get_pos(1) ns1 p1 w,
      of default_config "''TP hit''" 104 False]
  obtain s1 where a1: "close_position_one default_config sample_env ''BTCUSDT'' ''TP hit'' 104 ''SIM'' False sample_state = Inr s1"
    and a2: "trades (account_of s1 ''SIM'')
               = trades (account_of sample_state ''SIM'')
                 @ [trade_row default_config sample_env ''BTCUSDT'' ''TP hit'' (exit_price sample_env ''SIM'' False 104)
                      ''SIM'' sample_position (booking_uid sample_env ''SIM'' ''BTCUSDT'' sample_position sample_state)]"
    and a3: "trades_csv s1
               = (if LOG_TRADES_ON default_config
                  then trades_csv sample_state
                       @ [(''SIM'', trade_row default_config sample_env ''BTCUSDT'' ''TP hit''
                                     (exit_price sample_env ''SIM'' False 104) ''SIM'' sample_position
                                     (booking_uid sample_env ''SIM'' ''BTCUSDT'' sample_position sample_state))]
                  else trades_csv sample_state)"
    and a4: "close_triggers default_config ''BTCUSDT'' ''SIM'' ?cs s1 = Inr s1"
    and a5: "\<forall>s2. ''BTCUSDT'' \<in> dom (SYMAP s2)
                  \<and> LAST_CLOSE_TS s2 (upper ''SIM'', upper ''BTCUSDT'') = LAST_CLOSE_TS s1 (upper ''SIM'', upper ''BTCUSDT'')
                \<longrightarrow> close_triggers default_config ''BTCUSDT'' ''SIM'' ?cs s2 = Inr s2"
    by blast
  have c1: "length (trades (ACCOUNT_SIM s1)) = 1"
    using a2 by (simp add: account_of_SIM sample_accounts new_account_def)
  have c2: "length (trades_csv s1) = 1"
    using a3 by (simp add: default_config_def sample_state_def new_state_def)
  have d: "''BTCUSDT'' \<in> dom (SYMAP (s1\<lparr>SYMAP := SYMAP sample_state\<rparr>))
           \<and> LAST_CLOSE_TS (s1\<lparr>SYMAP := SYMAP sample_state\<rparr>) (upper ''SIM'', upper ''BTCUSDT'')
               = LAST_CLOSE_TS s1 (upper ''SIM'', upper ''BTCUSDT'')"
    by (simp add: sample_SYMAP dom_def)
  have c3: "close_triggers default_config ''BTCUSDT'' ''SIM'' ?cs (s1\<lparr>SYMAP := SYMAP sample_state\<rparr>)
              = Inr (s1\<lparr>SYMAP := SYMAP sample_state\<rparr>)"
    using a5 d by blast
  have c4: "sim_position_view sample_state ''BTCUSDT'' = Some (''LONG'', 1, 100, Some 98, Some 104)"
    by (simp add: sim_position_view_def sample_state_def sample_position_def)
  show ?thesis using c1 c2 a4 c3 c4 by (simp add: a1)
qed




end
